theory Spec2Isabelle
  imports Main "HOL-Library.Word" "HOL-Library.Sublist" "HOL-Library.AList"
begin

section \<open>JavaScript strings\<close>

text \<open>
  A JavaScript string is a sequence of UTF-16 code units. \<open>js\<close> embeds an ASCII literal;
  text outside ASCII is written as its code units.
\<close>

type_synonym code_unit = "16 word"
type_synonym jsstring = "code_unit list"

definition js :: "string \<Rightarrow> jsstring" where
  "js s = map of_char s"

definition quoted :: "jsstring \<Rightarrow> jsstring" where
  \<comment> \<open>a string between two double quotes (U+0022), for writing JSON texts\<close>
  "quoted s = 0x22 # s @ [0x22]"

definition isWhiteSpace :: "code_unit \<Rightarrow> bool" where
  \<comment> \<open>what \<open>String.prototype.trim\<close> strips: WhiteSpace and LineTerminator of ECMA-262\<close>
  "isWhiteSpace c \<longleftrightarrow>
     c \<in> set [0x0009, 0x000A, 0x000B, 0x000C, 0x000D, 0x0020, 0x00A0, 0x1680,
              0x2000, 0x2001, 0x2002, 0x2003, 0x2004, 0x2005, 0x2006, 0x2007,
              0x2008, 0x2009, 0x200A, 0x2028, 0x2029, 0x202F, 0x205F, 0x3000, 0xFEFF]"

definition trim :: "jsstring \<Rightarrow> jsstring" where
  "trim s = rev (dropWhile isWhiteSpace (rev (dropWhile isWhiteSpace s)))"

text \<open>
  \<open>s.replace(/pat/g, rep)\<close> for a pattern of literal characters and a replacement without
  \<open>$\<close>: the matches are found left to right and do not overlap.
\<close>

function replace_g :: "'a list \<Rightarrow> 'a list \<Rightarrow> 'a list \<Rightarrow> 'a list" where
  "replace_g pat rep [] = []"
| "replace_g pat rep (x # xs) =
     (if pat \<noteq> [] \<and> prefix pat (x # xs)
      then rep @ replace_g pat rep (drop (length pat) (x # xs))
      else x # replace_g pat rep xs)"
  by pat_completeness auto
termination
  by (relation "measure (\<lambda>(pat, rep, s). length s)") auto

fun decimal :: "nat \<Rightarrow> jsstring" where
  "decimal n =
     (if n < 10 then [of_nat (48 + n)]
      else decimal (n div 10) @ [of_nat (48 + n mod 10)])"

declare decimal.simps [simp del]

definition toString :: "int \<Rightarrow> jsstring" where
  \<comment> \<open>a template literal's rendering of an integer number below \<open>10^21\<close> in magnitude\<close>
  "toString i = (if i < 0 then 0x2D # decimal (nat (- i)) else decimal (nat i))"

section \<open>The normalizer\<close>

definition cleanJsonResponse :: "jsstring \<Rightarrow> jsstring" where
  "cleanJsonResponse text =
     trim (replace_g (js ''```'') [] (replace_g (js ''```json'') [] text))"

text \<open>
  What it means that \<open>r\<close> is \<open>s\<close> with all occurrences of \<open>pat\<close> removed, said without
  the scan: either \<open>pat\<close> does not occur in \<open>s\<close>, or \<open>s\<close> is \<open>a\<close>, then \<open>pat\<close>, then
  \<open>b\<close>, where no occurrence begins inside \<open>a\<close>, and \<open>r\<close> is \<open>a\<close> followed by \<open>b\<close> with all
  occurrences removed.
\<close>

inductive all_removed :: "'a list \<Rightarrow> 'a list \<Rightarrow> 'a list \<Rightarrow> bool" for pat where
  absent: "\<not> sublist pat s \<Longrightarrow> all_removed pat s s"
| leftmost: "\<not> sublist pat (a @ butlast pat) \<Longrightarrow> all_removed pat b r \<Longrightarrow>
     all_removed pat (a @ pat @ b) (a @ r)"

code_pred all_removed .

section \<open>JSON values and \<open>JSON.parse\<close>\<close>

text \<open>
  A number is kept as its literal: the only thing the program asks of a number is whether
  it is zero. An object keeps its members in the order of their first occurrence, a repeated
  key keeping its last value.
\<close>

datatype json =
    JNull
  | JBool bool
  | JNumber jsstring
  | JString jsstring
  | JArray "json list"
  | JObject "(jsstring \<times> json) list"

datatype token =
    TLBrace | TRBrace | TLBracket | TRBracket | TColon | TComma
  | TString jsstring | TNumber jsstring | TTrue | TFalse | TNull

definition isJsonWs :: "code_unit \<Rightarrow> bool" where
  "isJsonWs c \<longleftrightarrow> c = 0x20 \<or> c = 0x09 \<or> c = 0x0A \<or> c = 0x0D"

definition isDigit :: "code_unit \<Rightarrow> bool" where
  "isDigit c \<longleftrightarrow> 0x30 \<le> c \<and> c \<le> 0x39"

definition hexDigit :: "code_unit \<Rightarrow> code_unit option" where
  "hexDigit c =
     (if 0x30 \<le> c \<and> c \<le> 0x39 then Some (c - 0x30)
      else if 0x41 \<le> c \<and> c \<le> 0x46 then Some (c - 0x37)
      else if 0x61 \<le> c \<and> c \<le> 0x66 then Some (c - 0x57)
      else None)"

definition hex4 :: "code_unit \<Rightarrow> code_unit \<Rightarrow> code_unit \<Rightarrow> code_unit \<Rightarrow> code_unit option" where
  "hex4 a b c d =
     (case (hexDigit a, hexDigit b, hexDigit c, hexDigit d) of
        (Some h1, Some h2, Some h3, Some h4) \<Rightarrow> Some (((h1 * 16 + h2) * 16 + h3) * 16 + h4)
      | _ \<Rightarrow> None)"

definition unescape :: "code_unit \<Rightarrow> code_unit option" where
  "unescape e =
     (if e = 0x22 \<or> e = 0x5C \<or> e = 0x2F then Some e
      else if e = 0x62 then Some 0x08
      else if e = 0x66 then Some 0x0C
      else if e = 0x6E then Some 0x0A
      else if e = 0x72 then Some 0x0D
      else if e = 0x74 then Some 0x09
      else None)"

definition consChar ::
  "code_unit \<Rightarrow> (jsstring \<times> jsstring) option \<Rightarrow> (jsstring \<times> jsstring) option" where
  "consChar c r = (case r of None \<Rightarrow> None | Some (v, rest) \<Rightarrow> Some (c # v, rest))"

text \<open>The characters of a string literal after its opening quote, and the text after it.\<close>

fun lex_string :: "jsstring \<Rightarrow> (jsstring \<times> jsstring) option" where
  "lex_string [] = None"
| "lex_string (c # cs) =
     (if c = 0x22 then Some ([], cs)
      else if c = 0x5C then
        (case cs of
           [] \<Rightarrow> None
         | e # es \<Rightarrow>
             if e = 0x75 then
               (case es of
                  h1 # h2 # h3 # h4 # rest \<Rightarrow>
                    (case hex4 h1 h2 h3 h4 of
                       None \<Rightarrow> None
                     | Some u \<Rightarrow> consChar u (lex_string rest))
                | _ \<Rightarrow> None)
             else
               (case unescape e of
                  None \<Rightarrow> None
                | Some u \<Rightarrow> consChar u (lex_string es)))
      else if c < 0x20 then None
      else consChar c (lex_string cs))"

definition isNumberChar :: "code_unit \<Rightarrow> bool" where
  "isNumberChar c \<longleftrightarrow>
     isDigit c \<or> c = 0x2D \<or> c = 0x2B \<or> c = 0x2E \<or> c = 0x65 \<or> c = 0x45"

definition valid_exponent :: "jsstring \<Rightarrow> bool" where
  "valid_exponent s =
     (case s of
        [] \<Rightarrow> True
      | c # r \<Rightarrow>
          (c = 0x65 \<or> c = 0x45) \<and>
          (let ds = (case r of [] \<Rightarrow> [] | g # r' \<Rightarrow> if g = 0x2B \<or> g = 0x2D then r' else r)
           in ds \<noteq> [] \<and> list_all isDigit ds))"

definition valid_fraction :: "jsstring \<Rightarrow> bool" where
  "valid_fraction s =
     (case s of
        [] \<Rightarrow> True
      | c # r \<Rightarrow>
          if c = 0x2E
          then takeWhile isDigit r \<noteq> [] \<and> valid_exponent (dropWhile isDigit r)
          else valid_exponent s)"

definition valid_number :: "jsstring \<Rightarrow> bool" where
  "valid_number s =
     (case (case s of [] \<Rightarrow> [] | c # r \<Rightarrow> if c = 0x2D then r else s) of
        [] \<Rightarrow> False
      | d # r \<Rightarrow>
          if d = 0x30 then valid_fraction r
          else isDigit d \<and> valid_fraction (dropWhile isDigit r))"

function tokenize :: "jsstring \<Rightarrow> token list option" where
  "tokenize [] = Some []"
| "tokenize (c # cs) =
     (if isJsonWs c then tokenize cs
      else if c = 0x7B then map_option ((#) TLBrace) (tokenize cs)
      else if c = 0x7D then map_option ((#) TRBrace) (tokenize cs)
      else if c = 0x5B then map_option ((#) TLBracket) (tokenize cs)
      else if c = 0x5D then map_option ((#) TRBracket) (tokenize cs)
      else if c = 0x3A then map_option ((#) TColon) (tokenize cs)
      else if c = 0x2C then map_option ((#) TComma) (tokenize cs)
      else if c = 0x22 then
        (case lex_string cs of
           None \<Rightarrow> None
         | Some (v, rest) \<Rightarrow> map_option ((#) (TString v)) (tokenize rest))
      else if c = 0x2D \<or> isDigit c then
        (if valid_number (c # takeWhile isNumberChar cs)
         then map_option ((#) (TNumber (c # takeWhile isNumberChar cs)))
                (tokenize (dropWhile isNumberChar cs))
         else None)
      else if prefix (js ''true'') (c # cs) then map_option ((#) TTrue) (tokenize (drop 3 cs))
      else if prefix (js ''false'') (c # cs) then map_option ((#) TFalse) (tokenize (drop 4 cs))
      else if prefix (js ''null'') (c # cs) then map_option ((#) TNull) (tokenize (drop 3 cs))
      else None)"
  by pat_completeness auto
termination
proof (relation "measure length")
  show "wf (measure length)" by simp
next
  fix c cs x2 x y
  assume lexed: "lex_string cs = Some x2" "(x, y) = x2"
  have shorter: "lex_string s = Some (v, rest) \<Longrightarrow> length rest < length s" for s v rest
  proof (induction s arbitrary: v rest rule: lex_string.induct)
    case 1
    then show ?case by simp
  next
    case (2 c cs)
    show ?case
      using "2.prems" "2.IH"
      by (fastforce simp: consChar_def split: if_splits list.splits option.splits)
  qed
  from lexed show "(y, c # cs) \<in> measure length"
    using shorter [of cs x y] by simp
qed (auto intro: le_imp_less_Suc length_dropWhile_le)

text \<open>
  The grammar is recognised by a pushdown automaton over the tokens: the stack holds the
  arrays and objects that are open, \<open>expect\<close> says what may come next.
\<close>

datatype frame =
    InArray "json list"
  | InObject "(jsstring \<times> json) list"
  | InMember "(jsstring \<times> json) list" jsstring

datatype expect = Value | ValueOrEnd | Key | KeyOrEnd | Colon | CommaOrEnd | Finished json

fun put_value :: "json \<Rightarrow> frame list \<Rightarrow> (expect \<times> frame list) option" where
  "put_value v [] = Some (Finished v, [])"
| "put_value v (InArray vs # st) = Some (CommaOrEnd, InArray (vs @ [v]) # st)"
| "put_value v (InMember kvs k # st) = Some (CommaOrEnd, InObject (AList.update k v kvs) # st)"
| "put_value v (InObject kvs # st) = None"

fun close_array :: "frame list \<Rightarrow> (expect \<times> frame list) option" where
  "close_array (InArray vs # st) = put_value (JArray vs) st"
| "close_array _ = None"

fun close_object :: "frame list \<Rightarrow> (expect \<times> frame list) option" where
  "close_object (InObject kvs # st) = put_value (JObject kvs) st"
| "close_object _ = None"

fun take_value :: "token \<Rightarrow> frame list \<Rightarrow> (expect \<times> frame list) option" where
  "take_value (TString s) st = put_value (JString s) st"
| "take_value (TNumber n) st = put_value (JNumber n) st"
| "take_value TTrue st = put_value (JBool True) st"
| "take_value TFalse st = put_value (JBool False) st"
| "take_value TNull st = put_value JNull st"
| "take_value TLBracket st = Some (ValueOrEnd, InArray [] # st)"
| "take_value TLBrace st = Some (KeyOrEnd, InObject [] # st)"
| "take_value _ st = None"

fun take_key :: "token \<Rightarrow> frame list \<Rightarrow> (expect \<times> frame list) option" where
  "take_key (TString k) (InObject kvs # st) = Some (Colon, InMember kvs k # st)"
| "take_key _ _ = None"

fun parse_step :: "expect \<Rightarrow> frame list \<Rightarrow> token \<Rightarrow> (expect \<times> frame list) option" where
  "parse_step Value st t = take_value t st"
| "parse_step ValueOrEnd st t = (if t = TRBracket then close_array st else take_value t st)"
| "parse_step Key st t = take_key t st"
| "parse_step KeyOrEnd st t = (if t = TRBrace then close_object st else take_key t st)"
| "parse_step Colon st t = (if t = TColon then Some (Value, st) else None)"
| "parse_step CommaOrEnd st t =
     (if t = TRBracket then close_array st
      else if t = TRBrace then close_object st
      else if t = TComma then
        (case st of
           InArray vs # _ \<Rightarrow> Some (Value, st)
         | InObject kvs # _ \<Rightarrow> Some (Key, st)
         | _ \<Rightarrow> None)
      else None)"
| "parse_step (Finished v) st t = None"

fun parse_tokens :: "expect \<Rightarrow> frame list \<Rightarrow> token list \<Rightarrow> json option" where
  "parse_tokens e st [] = (case e of Finished v \<Rightarrow> Some v | _ \<Rightarrow> None)"
| "parse_tokens e st (t # ts) =
     (case parse_step e st t of
        None \<Rightarrow> None
      | Some (e', st') \<Rightarrow> parse_tokens e' st' ts)"

definition JSON_parse :: "jsstring \<Rightarrow> json option" where
  \<comment> \<open>\<open>None\<close> is the SyntaxError that \<open>JSON.parse\<close> throws\<close>
  "JSON_parse text =
     (case tokenize text of
        None \<Rightarrow> None
      | Some ts \<Rightarrow> parse_tokens Value [] ts)"

section \<open>JavaScript values\<close>

text \<open>
  A value read from a parsed JSON text is a \<open>json\<close>; \<open>None\<close> is \<open>undefined\<close>.
\<close>

definition digitsValue :: "jsstring \<Rightarrow> int" where
  "digitsValue ds = foldl (\<lambda>n c. 10 * n + uint (c - 0x30)) 0 ds"

definition number_is_zero :: "jsstring \<Rightarrow> bool" where
  \<comment> \<open>the literal is \<open>m\<close> times \<open>10\<close> to the \<open>- k\<close>; the double nearest to it is zero
      when it is at most \<open>2\<close> to the \<open>- 1075\<close>\<close>
  "number_is_zero n =
     (let body = (case n of [] \<Rightarrow> [] | c # r \<Rightarrow> if c = 0x2D then r else n);
          mant = takeWhile (\<lambda>c. c \<noteq> 0x65 \<and> c \<noteq> 0x45) body;
          ex = drop 1 (dropWhile (\<lambda>c. c \<noteq> 0x65 \<and> c \<noteq> 0x45) body);
          ip = takeWhile isDigit mant;
          fp = drop 1 (dropWhile isDigit mant);
          m = digitsValue (ip @ fp);
          e = (case ex of
                 [] \<Rightarrow> 0
               | g # ds \<Rightarrow>
                   if g = 0x2D then - digitsValue ds
                   else if g = 0x2B then digitsValue ds
                   else digitsValue ex);
          k = int (length fp) - e
      in m = 0 \<or> (0 < k \<and> m * 2 ^ 1075 \<le> 10 ^ nat k))"

fun truthy :: "json option \<Rightarrow> bool" where
  "truthy None = False"
| "truthy (Some JNull) = False"
| "truthy (Some (JBool b)) = b"
| "truthy (Some (JNumber n)) = (\<not> number_is_zero n)"
| "truthy (Some (JString s)) = (s \<noteq> [])"
| "truthy (Some (JArray vs)) = True"
| "truthy (Some (JObject kvs)) = True"

datatype error =
    Error jsstring
  | ErrorOf json
  | TypeError
  | SyntaxError
  | Rejected jsstring

text \<open>
  \<open>Error m\<close> is \<open>new Error(m)\<close> for a string \<open>m\<close>; \<open>ErrorOf v\<close> is \<open>new Error(v)\<close> for a
  value that is not a string, whose message is the string conversion of \<open>v\<close>; \<open>Rejected m\<close>
  is a rejection of the transport or of the provider's library.
\<close>

fun member :: "json \<Rightarrow> jsstring \<Rightarrow> json option" where
  \<comment> \<open>the property \<open>k\<close> of a value that is not null, for the names the program reads
      (\<open>error\<close>, \<open>message\<close>, \<open>choices\<close>, \<open>content\<close>, \<open>en\<close>, \<open>cn\<close>):
      own properties of objects only, none of them inherited\<close>
  "member (JObject kvs) k = map_of kvs k"
| "member _ k = None"

definition getProp :: "json option \<Rightarrow> jsstring \<Rightarrow> error + json option" where
  \<comment> \<open>\<open>v.k\<close>\<close>
  "getProp v k =
     (case v of
        None \<Rightarrow> Inl TypeError
      | Some JNull \<Rightarrow> Inl TypeError
      | Some x \<Rightarrow> Inr (member x k))"

definition getOptional :: "json option \<Rightarrow> jsstring \<Rightarrow> json option" where
  \<comment> \<open>\<open>v?.k\<close>\<close>
  "getOptional v k =
     (case v of
        None \<Rightarrow> None
      | Some JNull \<Rightarrow> None
      | Some x \<Rightarrow> member x k)"

definition index0 :: "json option \<Rightarrow> error + json option" where
  \<comment> \<open>\<open>v[0]\<close>\<close>
  "index0 v =
     (case v of
        None \<Rightarrow> Inl TypeError
      | Some JNull \<Rightarrow> Inl TypeError
      | Some (JArray vs) \<Rightarrow> Inr (case vs of [] \<Rightarrow> None | x # _ \<Rightarrow> Some x)
      | Some (JString s) \<Rightarrow> Inr (case s of [] \<Rightarrow> None | c # _ \<Rightarrow> Some (JString [c]))
      | Some (JObject kvs) \<Rightarrow> Inr (map_of kvs (js ''0''))
      | Some _ \<Rightarrow> Inr None)"

definition andThen :: "error + 'a \<Rightarrow> ('a \<Rightarrow> error + 'b) \<Rightarrow> error + 'b" where
  "andThen r f = (case r of Inl e \<Rightarrow> Inl e | Inr x \<Rightarrow> f x)"

section \<open>Settings, requests and the platform\<close>

datatype AppTheme = duolingo | aero

record AppSettings =
  baseUrl :: jsstring
  customApiKey :: jsstring
  modelName :: jsstring
  allowInflection :: bool
  theme :: AppTheme
  aeroOpacity :: int
  wordPracticeCount :: int
  grammarPracticeCount :: int

text \<open>The three schema descriptors are the object literals of the three fetch functions.\<close>

datatype schema = WordPairsSchema | ContextQuestionsSchema | GrammarDataSchema

record http_request =
  url :: jsstring
  http_method :: jsstring
  headers :: "(jsstring \<times> jsstring) list"
  body :: json

text \<open>\<open>body\<close> is the value handed to \<open>JSON.stringify\<close>.\<close>

record http_response =
  status :: nat
  payload :: jsstring

definition ok :: "http_response \<Rightarrow> bool" where
  "ok response \<longleftrightarrow> 200 \<le> status response \<and> status response \<le> 299"

record generation_config =
  responseMimeType :: jsstring
  responseSchema :: schema

record generation_request =
  credential :: jsstring
  model :: jsstring
  contents :: jsstring
  config :: "generation_config option"

datatype call = Fetch http_request | GenerateContent generation_request

text \<open>
  What the program reaches outside itself: \<open>process.env.API_KEY\<close>, \<open>fetch\<close>, the provider's
  \<open>generateContent\<close> (its result is the \<open>text\<close> of the response, \<open>None\<close> when absent), and
  the clock: \<open>Date_now i\<close> is what \<open>Date.now()\<close> returns at its \<open>i\<close>-th call of one operation.
\<close>

record platform =
  API_KEY :: "jsstring option"
  fetch :: "http_request \<Rightarrow> error + http_response"
  generateContent :: "generation_request \<Rightarrow> error + jsstring option"
  Date_now :: "nat \<Rightarrow> int"

section \<open>The dispatcher\<close>

definition API_KEY_MISSING :: jsstring where
  "API_KEY_MISSING =
     js ''API Key '' @
     [0x672A, 0x914D, 0x7F6E, 0xFF0C, 0x8BF7, 0x5728, 0x8BBE, 0x7F6E, 0x4E2D, 0x586B, 0x5199,
      0x3002]"

definition REQUEST_FAILED :: jsstring where
  "REQUEST_FAILED = [0x8BF7, 0x6C42, 0x5931, 0x8D25, 0x003A, 0x0020]"

definition JSON_ONLY :: jsstring where
  "JSON_ONLY =
     [0x000A, 0x000A, 0x91CD, 0x8981, 0xFF1A, 0x8BF7, 0x52A1, 0x5FC5, 0x8FD4, 0x56DE, 0x5408,
      0x6CD5, 0x7684] @
     js '' JSON '' @
     [0x683C, 0x5F0F, 0x6570, 0x636E, 0xFF0C, 0x4E0D, 0x8981, 0x5305, 0x542B, 0x4EFB, 0x4F55,
      0x89E3, 0x91CA, 0x6587, 0x5B57, 0x3002]"

definition apiKey :: "platform \<Rightarrow> AppSettings \<Rightarrow> jsstring" where
  \<comment> \<open>\<open>settings.customApiKey || process.env.API_KEY || ''\<close>\<close>
  "apiKey pf settings =
     (if customApiKey settings \<noteq> [] then customApiKey settings
      else case API_KEY pf of
             Some k \<Rightarrow> if k \<noteq> [] then k else []
           | None \<Rightarrow> [])"

definition cleanBaseUrl :: "AppSettings \<Rightarrow> jsstring" where
  "cleanBaseUrl settings =
     (let b = (if baseUrl settings \<noteq> [] then baseUrl settings else js ''https://api.openai.com'')
      in if suffix (js ''/'') b then butlast b else b)"

definition chatCompletionsUrl :: "AppSettings \<Rightarrow> jsstring" where
  "chatCompletionsUrl settings = cleanBaseUrl settings @ js ''/v1/chat/completions''"

definition finalPrompt :: "jsstring \<Rightarrow> schema option \<Rightarrow> jsstring" where
  "finalPrompt prompt sch = (case sch of Some _ \<Rightarrow> prompt @ JSON_ONLY | None \<Rightarrow> prompt)"

definition chatRequest :: "jsstring \<Rightarrow> jsstring \<Rightarrow> AppSettings \<Rightarrow> schema option \<Rightarrow> http_request" where
  "chatRequest key prompt settings sch =
     \<lparr>url = chatCompletionsUrl settings,
      http_method = js ''POST'',
      headers = [(js ''Content-Type'', js ''application/json''),
                 (js ''Authorization'', js ''Bearer '' @ key)],
      body = JObject
        ([(js ''model'', JString (modelName settings)),
          (js ''messages'',
             JArray [JObject [(js ''role'', JString (js ''user'')),
                              (js ''content'', JString (finalPrompt prompt sch))]]),
          (js ''temperature'', JNumber (js ''0.7''))] @
         (case sch of
            Some _ \<Rightarrow> [(js ''response_format'', JObject [(js ''type'', JString (js ''json_object''))])]
          | None \<Rightarrow> []))\<rparr>"

definition httpFailure :: "http_response \<Rightarrow> error" where
  "httpFailure response =
     (let err = (case JSON_parse (payload response) of
                   None \<Rightarrow>
                     JObject [(js ''error'',
                       JObject [(js ''message'',
                         JString (js ''HTTP '' @ decimal (status response)))])]
                 | Some v \<Rightarrow> v)
      in case getProp (Some err) (js ''error'') of
           Inl e \<Rightarrow> e
         | Inr detail \<Rightarrow>
             (let m = getOptional detail (js ''message'')
              in if truthy m
                 then (case m of
                         Some (JString s) \<Rightarrow> Error s
                       | Some v \<Rightarrow> ErrorOf v
                       | None \<Rightarrow> Error (REQUEST_FAILED @ decimal (status response)))
                 else Error (REQUEST_FAILED @ decimal (status response))))"

definition completionContent :: "json \<Rightarrow> error + json option" where
  \<comment> \<open>\<open>result.choices[0].message.content\<close>\<close>
  "completionContent result =
     andThen (getProp (Some result) (js ''choices'')) (\<lambda>choices.
     andThen (index0 choices) (\<lambda>choice.
     andThen (getProp choice (js ''message'')) (\<lambda>message.
     getProp message (js ''content''))))"

definition generationRequest ::
  "jsstring \<Rightarrow> jsstring \<Rightarrow> AppSettings \<Rightarrow> schema option \<Rightarrow> generation_request" where
  "generationRequest key prompt settings sch =
     \<lparr>credential = key,
      model = (if modelName settings \<noteq> [] then modelName settings
               else js ''gemini-3-flash-preview''),
      contents = prompt,
      config = (case sch of
                  Some s \<Rightarrow> Some \<lparr>responseMimeType = js ''application/json'', responseSchema = s\<rparr>
                | None \<Rightarrow> None)\<rparr>"

text \<open>
  \<open>callAi\<close> returns the calls it made on the platform, in order, and its result: the error
  thrown or the value returned.
\<close>

definition callAi ::
  "platform \<Rightarrow> jsstring \<Rightarrow> AppSettings \<Rightarrow> schema option \<Rightarrow> call list \<times> (error + json option)" where
  "callAi pf prompt settings sch =
     (let key = apiKey pf settings
      in if key = [] then ([], Inl (Error API_KEY_MISSING))
         else if prefix (js ''sk-'') key then
           (let request = chatRequest key prompt settings sch
            in ([Fetch request],
                case fetch pf request of
                  Inl e \<Rightarrow> Inl e
                | Inr response \<Rightarrow>
                    if \<not> ok response then Inl (httpFailure response)
                    else (case JSON_parse (payload response) of
                            None \<Rightarrow> Inl SyntaxError
                          | Some result \<Rightarrow> completionContent result)))
         else
           (let request = generationRequest key prompt settings sch
            in ([GenerateContent request],
                case generateContent pf request of
                  Inl e \<Rightarrow> Inl e
                | Inr t \<Rightarrow>
                    Inr (Some (JString (case t of None \<Rightarrow> [] | Some s \<Rightarrow> trim s))))))"

section \<open>The fetch functions\<close>

definition wordPairsPromptHead :: jsstring where
  \<comment> \<open>the template of \<open>fetchWordPairs\<close> up to \<open>${userWords}\<close>\<close>
  "wordPairsPromptHead =
     [0x8BF7, 0x5C06, 0x4EE5, 0x4E0B, 0x82F1, 0x6587, 0x5355, 0x8BCD, 0x7FFB, 0x8BD1, 0x6210,
      0x4E2D, 0x6587, 0x3002, 0x8F93, 0x51FA, 0x8981, 0x6C42, 0xFF1A, 0x4EC5, 0x8F93, 0x51FA] @
     js '' JSON '' @
     [0x6570, 0x7EC4, 0x683C, 0x5F0F, 0xFF0C, 0x6BCF, 0x4E2A, 0x5BF9, 0x8C61, 0x5305, 0x542B,
      0x0020, 0x0027, 0x0065, 0x006E, 0x0027, 0x0020, 0x548C, 0x0020, 0x0027, 0x0063, 0x006E,
      0x0027, 0x3002, 0x5355, 0x8BCD, 0x5217, 0x8868, 0x5982, 0x4E0B, 0xFF1A, 0x000A, 0x0020]"

definition contextPromptHead :: jsstring where
  \<comment> \<open>the template of \<open>fetchContextQuestions\<close> up to \<open>${count}\<close>\<close>
  "contextPromptHead =
     [0x8BF7, 0x4E3A, 0x4EE5, 0x4E0B, 0x5355, 0x8BCD, 0x751F, 0x6210, 0x0020]"

definition contextPromptRules :: jsstring where
  \<comment> \<open>from \<open>${count}\<close> to \<open>${inflectionText}\<close>\<close>
  "contextPromptRules =
     [0x0020, 0x9053, 0x82F1, 0x6587, 0x586B, 0x7A7A, 0x9898, 0xFF0C, 0x8FD4, 0x56DE] @
     js '' JSON '' @
     [0x6570, 0x7EC4, 0x683C, 0x5F0F, 0x3002, 0x6BCF, 0x4E2A, 0x5BF9, 0x8C61, 0x5305, 0x542B,
      0x0020, 0x0027] @
     js ''sentence'' @
     [0x0027, 0x0020, 0x0028, 0x7528] @
     js '' _____ '' @
     [0x4EE3, 0x66FF, 0x5F85, 0x586B, 0x8BCD, 0x0029, 0x0020, 0x548C, 0x0020, 0x0027] @
     js ''answer'' @
     [0x0027, 0x0020, 0x0028, 0x6B63, 0x786E, 0x7684, 0x5355, 0x8BCD, 0x0029, 0x3002, 0x000A,
      0x0020, 0x0020, 0x8981, 0x6C42, 0xFF1A, 0x000A] @
     js ''  1. '' @
     [0x53E5, 0x5B50, 0x8981, 0x7B80, 0x5355, 0x6613, 0x61C2, 0x3002, 0x000A] @
     js ''  2. '' @
     [0x7B54, 0x6848, 0x5FC5, 0x987B, 0x6765, 0x81EA, 0x5355, 0x8BCD, 0x5217, 0x8868, 0x3002,
      0x000A] @
     js ''  3. ''"

definition contextPromptTail :: jsstring where
  \<comment> \<open>from \<open>${inflectionText}\<close> to \<open>${userWords}\<close>\<close>
  "contextPromptTail =
     [0x0020, 0x5355, 0x8BCD, 0x53D8, 0x5F62, 0x3002, 0x000A, 0x0020, 0x0020, 0x5355, 0x8BCD,
      0x5217, 0x8868, 0xFF1A]"

definition grammarPromptHead :: jsstring where
  \<comment> \<open>the template of \<open>fetchGrammarData\<close> up to \<open>${grammarPoint}\<close>\<close>
  "grammarPromptHead =
     [0x4F60, 0x662F, 0x4E00, 0x4E2A, 0x4E13, 0x4E1A, 0x7684, 0x82F1, 0x8BED, 0x6559, 0x5E08,
      0x3002, 0x8BF7, 0x9488, 0x5BF9, 0x4EE5, 0x4E0B, 0x8BED, 0x6CD5, 0x70B9, 0x548C, 0x5E74,
      0x7EA7, 0x751F, 0x6210, 0x5B66, 0x4E60, 0x5185, 0x5BB9, 0x3002, 0x000A, 0x0020, 0x0020,
      0x8BED, 0x6CD5, 0x70B9, 0xFF1A]"

definition grammarPromptGrade :: jsstring where
  \<comment> \<open>from \<open>${grammarPoint}\<close> to \<open>${grade}\<close>\<close>
  "grammarPromptGrade =
     [0x000A, 0x0020, 0x0020, 0x9002, 0x7528, 0x5E74, 0x7EA7, 0xFF1A]"

definition grammarPromptStructure :: jsstring where
  \<comment> \<open>from \<open>${grade}\<close> to the first \<open>${count}\<close>\<close>
  "grammarPromptStructure =
     [0x000A, 0x000A, 0x0020, 0x0020, 0x8BF7, 0x8FD4, 0x56DE, 0x4E00, 0x4E2A] @
     js '' JSON '' @
     [0x5BF9, 0x8C61, 0xFF0C, 0x5305, 0x542B, 0x4EE5, 0x4E0B, 0x7ED3, 0x6784, 0xFF1A, 0x000A] @
     js ''  1. explanation: '' @
     [0x5BF9, 0x8C61, 0xFF0C, 0x5305, 0x542B] @
     js '' title ('' @
     [0x8BED, 0x6CD5, 0x70B9, 0x540D, 0x79F0] @
     js ''), usage ('' @
     [0x8BE6, 0x7EC6, 0x7528, 0x6CD5, 0x89E3, 0x91CA] @
     js ''), examples (3'' @
     [0x4E2A, 0x4F8B, 0x53E5, 0x6570, 0x7EC4] @
     js ''), comparisons ('' @
     [0x4E0E, 0x5176, 0x4ED6, 0x6613, 0x6DF7, 0x6DC6, 0x8BED, 0x6CD5, 0x7684, 0x5BF9, 0x6BD4,
      0x0029, 0x3002, 0x000A] @
     js ''  2. fillQuestions: ''"

definition grammarPromptFill :: jsstring where
  \<comment> \<open>between the two \<open>${count}\<close>\<close>
  "grammarPromptFill =
     [0x4E2A, 0x586B, 0x7A7A, 0x9898, 0x5BF9, 0x8C61, 0x6570, 0x7EC4, 0x3002, 0x6BCF, 0x4E2A,
      0x5305, 0x542B] @
     js '' sentence ('' @
     [0x6316, 0x7A7A, 0x5904, 0x7528] @
     js '' _____ '' @
     [0x8868, 0x793A] @
     js ''), hint ('' @
     [0x62EC, 0x53F7, 0x91CC, 0x7684, 0x539F, 0x5F62, 0x63D0, 0x793A, 0x0029, 0x002C, 0x0020,
      0x548C] @
     js '' answer'' @
     [0x3002, 0x000A] @
     js ''     '' @
     [0x3010, 0x6781, 0x91CD, 0x8981, 0x8981, 0x6C42, 0x3011, 0xFF1A, 0x6316, 0x7A7A, 0x5904,
      0x5BF9, 0x5E94, 0x7684] @
     js '' answer '' @
     [0x5FC5, 0x987B, 0x662F, 0x4E00, 0x4E2A, 0x4E14, 0x4EC5, 0x4E00, 0x4E2A, 0x5355, 0x8BCD,
      0xFF01, 0x000A] @
     js ''     '' @
     [0x7981, 0x6B62, 0x8003, 0x67E5, 0x591A, 0x8BCD, 0x77ED, 0x8BED, 0x3002, 0x52A9, 0x52A8,
      0x8BCD, 0xFF08, 0x5982] @
     js '' are/is/do/have/has/will'' @
     [0xFF09, 0x5FC5, 0x987B, 0x76F4, 0x63A5, 0x5199, 0x5728] @
     js '' sentence '' @
     [0x4E2D, 0xFF0C, 0x800C, 0x4E0D, 0x662F, 0x653E, 0x5728] @
     js '' answer '' @
     [0x91CC, 0x3002, 0x000A] @
     js ''  3. choiceQuestions: ''"

definition grammarPromptChoice :: jsstring where
  \<comment> \<open>after the second \<open>${count}\<close>\<close>
  "grammarPromptChoice =
     [0x4E2A, 0x9009, 0x62E9, 0x9898, 0x5BF9, 0x8C61, 0x6570, 0x7EC4, 0xFF0C, 0x6BCF, 0x4E2A,
      0x5305, 0x542B] @
     js '' sentence ('' @
     [0x6316, 0x7A7A, 0x5904, 0x7528] @
     js '' _____ '' @
     [0x8868, 0x793A] @
     js ''), options ('' @
     [0x5305, 0x542B, 0x6B63, 0x786E, 0x9879, 0x548C, 0x5E72, 0x6270, 0x9879, 0x7684, 0x6570,
      0x7EC4] @
     js ''), answer ('' @
     [0x6B63, 0x786E, 0x9009, 0x9879, 0x0029, 0x3002, 0x000A, 0x000A, 0x0020, 0x0020, 0x6240,
      0x6709, 0x5185, 0x5BB9, 0x5FC5, 0x987B, 0x7B26, 0x5408, 0x8BE5, 0x5E74, 0x7EA7, 0x7684,
      0x8BA4, 0x77E5, 0x6C34, 0x5E73, 0x3002]"

definition wordPairsPrompt :: "jsstring \<Rightarrow> jsstring" where
  "wordPairsPrompt userWords = wordPairsPromptHead @ userWords"

definition contextPrompt :: "jsstring \<Rightarrow> bool \<Rightarrow> int \<Rightarrow> jsstring" where
  "contextPrompt userWords allow count =
     contextPromptHead @ toString count @ contextPromptRules @
     (if allow then [0x5141, 0x8BB8] else [0x7981, 0x6B62]) @
     contextPromptTail @ userWords"

definition grammarPrompt :: "jsstring \<Rightarrow> jsstring \<Rightarrow> int \<Rightarrow> jsstring" where
  "grammarPrompt grammarPoint grade count =
     grammarPromptHead @ grammarPoint @ grammarPromptGrade @ grade @ grammarPromptStructure @
     toString count @ grammarPromptFill @ toString count @ grammarPromptChoice"

record WordPair =
  id_str :: jsstring
  en :: "json option"
  cn :: "json option"

definition textOr :: "json option \<Rightarrow> jsstring \<Rightarrow> error + jsstring" where
  \<comment> \<open>\<open>text || d\<close> as \<open>cleanJsonResponse\<close> takes it: \<open>text.replace\<close> is a TypeError on a
      value that is not a string\<close>
  "textOr v d =
     (if truthy v
      then (case v of Some (JString s) \<Rightarrow> Inr s | _ \<Rightarrow> Inl TypeError)
      else Inr d)"

definition parseResponse :: "json option \<Rightarrow> jsstring \<Rightarrow> error + json" where
  \<comment> \<open>\<open>JSON.parse(cleanJsonResponse(text || d))\<close>\<close>
  "parseResponse v d =
     andThen (textOr v d) (\<lambda>t.
       case JSON_parse (cleanJsonResponse t) of
         None \<Rightarrow> Inl SyntaxError
       | Some x \<Rightarrow> Inr x)"

definition pairId :: "nat \<Rightarrow> int \<Rightarrow> jsstring" where
  "pairId i t = toString (int i) @ js ''-'' @ toString t"

fun mapPairs :: "(nat \<Rightarrow> int) \<Rightarrow> nat \<Rightarrow> json list \<Rightarrow> error + WordPair list" where
  "mapPairs now i [] = Inr []"
| "mapPairs now i (p # ps) =
     andThen (getProp (Some p) (js ''en'')) (\<lambda>e.
     andThen (getProp (Some p) (js ''cn'')) (\<lambda>c.
     andThen (mapPairs now (Suc i) ps) (\<lambda>rest.
     Inr (\<lparr>id_str = pairId i (now i), en = e, cn = c\<rparr> # rest))))"

definition fetchWordPairs ::
  "platform \<Rightarrow> jsstring \<Rightarrow> AppSettings \<Rightarrow> call list \<times> (error + WordPair list)" where
  "fetchWordPairs pf userWords settings =
     (case callAi pf (wordPairsPrompt userWords) settings (Some WordPairsSchema) of
        (calls, r) \<Rightarrow>
          (calls,
           andThen r (\<lambda>t.
           andThen (parseResponse t (js ''[]'')) (\<lambda>rawPairs.
             case rawPairs of
               JArray ps \<Rightarrow> mapPairs (Date_now pf) 0 ps
             | _ \<Rightarrow> Inl TypeError))))"

definition fetchContextQuestions ::
  "platform \<Rightarrow> jsstring \<Rightarrow> bool \<Rightarrow> int \<Rightarrow> AppSettings \<Rightarrow> call list \<times> (error + json)" where
  "fetchContextQuestions pf userWords allow count settings =
     (case callAi pf (contextPrompt userWords allow count) settings (Some ContextQuestionsSchema) of
        (calls, r) \<Rightarrow> (calls, andThen r (\<lambda>t. parseResponse t (js ''[]''))))"

definition fetchGrammarData ::
  "platform \<Rightarrow> jsstring \<Rightarrow> jsstring \<Rightarrow> int \<Rightarrow> AppSettings \<Rightarrow> call list \<times> (error + json)" where
  "fetchGrammarData pf grammarPoint grade count settings =
     (case callAi pf (grammarPrompt grammarPoint grade count) settings (Some GrammarDataSchema) of
        (calls, r) \<Rightarrow> (calls, andThen r (\<lambda>t. parseResponse t (js ''{}''))))"


section \<open>Mocked platforms and sample inputs\<close>

definition defaultSettings :: AppSettings where
  \<comment> \<open>the settings the application starts with\<close>
  "defaultSettings =
     \<lparr>baseUrl = js ''https://generativelanguage.googleapis.com'',
      customApiKey = [],
      modelName = js ''gemini-3-flash-preview'',
      allowInflection = False,
      theme = duolingo,
      aeroOpacity = 70,
      wordPracticeCount = 5,
      grammarPracticeCount = 5\<rparr>"

definition mockPlatform ::
  "jsstring option \<Rightarrow> (error + http_response) \<Rightarrow> (error + jsstring option) \<Rightarrow> platform" where
  \<comment> \<open>a platform whose transport and provider answer every request the same way\<close>
  "mockPlatform k r t =
     \<lparr>API_KEY = k,
      fetch = (\<lambda>request. r),
      generateContent = (\<lambda>request. t),
      Date_now = (\<lambda>i. 1700000000000)\<rparr>"

definition notMocked :: "error + 'a" where
  "notMocked = Inl (Rejected (js ''not mocked''))"

definition presentedCredential :: "call \<Rightarrow> jsstring" where
  \<comment> \<open>the credential a call carries: after \<open>Bearer \<close> in the Authorization header, or
      the key the provider's client was built with\<close>
  "presentedCredential c =
     (case c of
        Fetch request \<Rightarrow>
          (case map_of (headers request) (js ''Authorization'') of
             Some h \<Rightarrow> drop 7 h
           | None \<Rightarrow> [])
      | GenerateContent request \<Rightarrow> credential request)"

definition catJson :: jsstring where
  "catJson =
     js ''[{'' @ quoted (js ''en'') @ js '':'' @ quoted (js ''cat'') @ js '','' @
     quoted (js ''cn'') @ js '':'' @ quoted [0x732B] @ js ''}]''"

definition fencedCat :: jsstring where
  "fencedCat = js ''```json'' @ [0x0A] @ catJson @ [0x0A] @ js ''```''"

definition invalidKeyBody :: jsstring where
  "invalidKeyBody =
     js ''{'' @ quoted (js ''error'') @ js '':{'' @ quoted (js ''message'') @ js '':'' @
     quoted (js ''invalid key'') @ js ''}}''"

definition emptyMessageBody :: jsstring where
  "emptyMessageBody =
     js ''{'' @ quoted (js ''error'') @ js '':{'' @ quoted (js ''message'') @ js '':'' @
     quoted [] @ js ''}}''"

section \<open>Facts about strings\<close>

lemma replace_g_absent: "\<not> sublist pat s \<Longrightarrow> replace_g pat rep s = s"
  by (induction s) (auto simp: sublist_Cons_right)

lemma replace_g_head:
  "pat \<noteq> [] \<Longrightarrow> replace_g pat rep (pat @ s) = rep @ replace_g pat rep s"
  by (cases pat) auto

lemma replace_g_Cons_del:
  "pat \<noteq> [] \<Longrightarrow> replace_g pat [] (x # xs) =
     (if prefix pat (x # xs) then replace_g pat [] (drop (length pat) (x # xs))
      else x # replace_g pat [] xs)"
  by simp

text \<open>
  Deleting a run of three equal characters wherever it occurs leaves no such run: a
  maximal run of \<open>n\<close> keeps \<open>n mod 3\<close> of them.
\<close>

lemma run1: "prefix [b] (replace_g [b, b, b] [] s) \<Longrightarrow> prefix [b] s"
  by (induction "[b, b, b]" "[] :: 'a list" s rule: replace_g.induct) (auto split: if_splits)

lemma prefix2_prefix1: "prefix [b, b] s \<Longrightarrow> prefix [b] s"
  by (cases s) auto

lemma run2: "prefix [b, b] (replace_g [b, b, b] [] s) \<Longrightarrow> prefix [b, b] s"
  by (induction "[b, b, b]" "[] :: 'a list" s rule: replace_g.induct)
     (auto split: if_splits dest: run1 prefix2_prefix1)

lemma replace_g_no_run: "\<not> sublist [b, b, b] (replace_g [b, b, b] [] s)"
  by (induction "[b, b, b]" "[] :: 'a list" s rule: replace_g.induct)
     (auto split: if_splits simp: sublist_Cons_right dest: run2)

lemma replace_g_closing_run:
  "\<not> sublist [b, b, b] u \<Longrightarrow> replace_g [b, b, b] [] (u @ [b, b, b]) = u"
proof (induction u)
  case Nil
  show ?case by simp
next
  case (Cons x u)
  then have nopre: "\<not> prefix [b, b, b] (x # u)"
    and IH: "replace_g [b, b, b] [] (u @ [b, b, b]) = u"
    by (auto simp: sublist_Cons_right)
  show ?case
  proof (cases "prefix [b, b, b] (x # u @ [b, b, b])")
    case False
    then show ?thesis
      using replace_g_Cons_del [of "[b, b, b]" x "u @ [b, b, b]"] IH
      by (simp only: append_Cons if_False list.distinct not_False_eq_True)
  next
    case True
    with nopre have "x # u = [b] \<or> x # u = [b, b]"
      by (cases u; cases "tl u") auto
    then show ?thesis by auto
  qed
qed

lemma run_sublist_pad_left:
  "b \<notin> set w \<Longrightarrow> sublist [b, b, b] (w @ s) \<Longrightarrow> sublist [b, b, b] s"
  by (induction w) (auto simp: sublist_Cons_right)

lemma run_sublist_pad_right:
  assumes "b \<notin> set w" and "sublist [b, b, b] (s @ w)"
  shows "sublist [b, b, b] s"
proof -
  from assms(2) have "sublist (rev [b, b, b]) (rev (s @ w))"
    by (simp only: sublist_rev)
  then have "sublist [b, b, b] (rev w @ rev s)"
    by simp
  with assms(1) have "sublist [b, b, b] (rev s)"
    using run_sublist_pad_left [of b "rev w" "rev s"] by simp
  then have "sublist (rev [b, b, b]) (rev s)"
    by simp
  then show ?thesis
    by (simp only: sublist_rev)
qed

lemma trim_sublist: "sublist (trim s) s"
proof -
  have "sublist (trim s) (dropWhile isWhiteSpace s)"
    unfolding trim_def by (simp add: sublist_rev_left)
  then show ?thesis
    using sublist_dropWhile sublist_order.order_trans by blast
qed

lemma dropWhile_trim: "dropWhile isWhiteSpace (trim s) = trim s"
proof (cases "trim s")
  case Nil
  then show ?thesis by simp
next
  case (Cons c cs)
  define y where "y = dropWhile isWhiteSpace s"
  have "prefix (trim s) y"
    unfolding trim_def y_def
    by (metis prefix_def rev_append rev_rev_ident takeWhile_dropWhile_id)
  with Cons have "y \<noteq> []" "hd y = c"
    by (auto simp: prefix_def)
  then have "\<not> isWhiteSpace c"
    unfolding y_def using hd_dropWhile by metis
  with Cons show ?thesis by simp
qed

lemma trim_idem: "trim (trim s) = trim s"
proof -
  have "trim (trim s) = rev (dropWhile isWhiteSpace (rev (trim s)))"
    by (simp add: trim_def [of "trim s"] dropWhile_trim)
  also have "\<dots> = trim s"
    by (simp add: trim_def)
  finally show ?thesis .
qed

lemma trim_pad:
  assumes "list_all isWhiteSpace w1" and "list_all isWhiteSpace w2"
  shows "trim (w1 @ s @ w2) = trim s"
proof -
  have l: "dropWhile isWhiteSpace (w @ t) = dropWhile isWhiteSpace t"
    if "list_all isWhiteSpace w" for w t
    using that by (induction w) auto
  have r: "list_all isWhiteSpace (rev w2)"
    using assms(2) by (simp add: list_all_iff)
  have "dropWhile isWhiteSpace (rev (dropWhile isWhiteSpace (w1 @ s @ w2)))
        = dropWhile isWhiteSpace (rev (dropWhile isWhiteSpace (s @ w2)))"
    by (simp add: l [OF assms(1)])
  also have "\<dots> = dropWhile isWhiteSpace (rev (dropWhile isWhiteSpace s))"
  proof (cases "dropWhile isWhiteSpace s = []")
    case True
    then have "\<forall>c\<in>set s. isWhiteSpace c" by simp
    with assms(2) have "\<forall>c\<in>set (s @ w2). isWhiteSpace c"
      by (auto simp: list_all_iff)
    then have "dropWhile isWhiteSpace (s @ w2) = []"
      by (simp only: dropWhile_eq_Nil_conv)
    then show ?thesis by (simp only: True)
  next
    case False
    then have "\<exists>c\<in>set s. \<not> isWhiteSpace c" by simp
    then have "dropWhile isWhiteSpace (s @ w2) = dropWhile isWhiteSpace s @ w2"
      by auto
    then show ?thesis by (simp add: l [OF r])
  qed
  finally show ?thesis by (simp add: trim_def)
qed

section \<open>Facts about the normalizer\<close>

lemma fence_json_sublist: "sublist (js ''```json'') s \<Longrightarrow> sublist (js ''```'') s"
proof -
  have "sublist (js ''```'') (js ''```json'')"
    by (simp add: js_def)
  then show "sublist (js ''```json'') s \<Longrightarrow> sublist (js ''```'') s"
    using sublist_order.order_trans by blast
qed

lemma clean_no_fence: "\<not> sublist (js ''```'') (cleanJsonResponse s)"
proof
  assume "sublist (js ''```'') (cleanJsonResponse s)"
  then have "sublist (js ''```'')
      (replace_g (js ''```'') [] (replace_g (js ''```json'') [] s))"
    unfolding cleanJsonResponse_def using trim_sublist sublist_order.order_trans by blast
  then show False
    using replace_g_no_run [of "0x60 :: code_unit"] by (simp add: js_def)
qed

lemma clean_absent:
  assumes "\<not> sublist (js ''```'') s"
  shows "cleanJsonResponse s = trim s"
proof -
  from assms have "\<not> sublist (js ''```json'') s"
    using fence_json_sublist by blast
  then have "replace_g (js ''```json'') [] s = s"
    by (rule replace_g_absent)
  moreover from assms have "replace_g (js ''```'') [] s = s"
    by (rule replace_g_absent)
  ultimately show ?thesis
    by (simp add: cleanJsonResponse_def)
qed

lemma clean_trimmed: "trim (cleanJsonResponse s) = cleanJsonResponse s"
  by (simp add: cleanJsonResponse_def trim_idem)

lemma opening_absent_before_closing:
  assumes "\<not> sublist (js ''```'') u"
  shows "\<not> sublist (js ''```json'') (u @ js ''```'')"
proof
  assume "sublist (js ''```json'') (u @ js ''```'')"
  then consider "sublist (js ''```json'') u" | "sublist (js ''```json'') (js ''```'')"
    | xs1 xs2 where "js ''```json'' = xs1 @ xs2" "suffix xs1 u" "prefix xs2 (js ''```'')"
    unfolding sublist_append by blast
  then show False
  proof cases
    case 1
    with assms show False using fence_json_sublist by blast
  next
    case 2
    then have "length (js ''```json'') \<le> length (js ''```'')"
      by (rule sublist_length_le)
    then show False by (simp add: js_def)
  next
    case 3
    from 3(3) have "length xs2 \<le> 3"
      using prefix_length_le [of xs2 "js ''```''"] by (simp add: js_def)
    moreover have "length (js ''```json'') = length (xs1 @ xs2)"
      by (simp only: 3(1))
    then have "length xs1 + length xs2 = 7"
      by (simp add: js_def)
    ultimately have len: "3 < length xs1" by simp
    have "prefix (js ''```'') (xs1 @ xs2)"
      unfolding 3(1) [symmetric] by (simp add: js_def)
    then have "prefix (js ''```'') xs1 \<or> (\<exists>us. js ''```'' = xs1 @ us)"
      by (auto simp: prefix_append)
    moreover have "js ''```'' \<noteq> xs1 @ us" for us
    proof
      assume "js ''```'' = xs1 @ us"
      then have "length (js ''```'') = length (xs1 @ us)" by (rule arg_cong)
      with len show False by (simp add: js_def)
    qed
    ultimately have "prefix (js ''```'') xs1"
      by blast
    then have "sublist (js ''```'') u"
      using 3(2) by (meson prefix_imp_sublist suffix_imp_sublist sublist_order.order_trans)
    with assms show False by blast
  qed
qed

lemma backtick_not_space: "list_all isWhiteSpace w \<Longrightarrow> 0x60 \<notin> set w"
  by (auto simp: list_all_iff isWhiteSpace_def)

lemma clean_fenced:
  assumes "\<not> sublist (js ''```'') s"
    and "list_all isWhiteSpace w1" and "list_all isWhiteSpace w2"
  shows "cleanJsonResponse (js ''```json'' @ w1 @ s @ w2 @ js ''```'') = trim s"
proof -
  define u where "u = w1 @ s @ w2"
  define tick :: code_unit where "tick = 0x60"
  have F: "js ''```'' = [tick, tick, tick]"
    by (simp add: js_def tick_def)
  have t1: "tick \<notin> set w1"
    unfolding tick_def by (rule backtick_not_space [OF assms(2)])
  have t2: "tick \<notin> set w2"
    unfolding tick_def by (rule backtick_not_space [OF assms(3)])
  have nofence: "\<not> sublist (js ''```'') u"
  proof
    assume "sublist (js ''```'') u"
    then have "sublist [tick, tick, tick] (w1 @ (s @ w2))"
      by (simp only: u_def F)
    then have "sublist [tick, tick, tick] (s @ w2)"
      by (rule run_sublist_pad_left [OF t1])
    then have "sublist [tick, tick, tick] s"
      by (rule run_sublist_pad_right [OF t2])
    with assms(1) show False by (simp add: F)
  qed
  have nonempty: "js ''```json'' \<noteq> []"
    by (simp add: js_def)
  have "replace_g (js ''```json'') [] (js ''```json'' @ (u @ js ''```''))
        = replace_g (js ''```json'') [] (u @ js ''```'')"
    using replace_g_head [OF nonempty, of "[]" "u @ js ''```''"] by (simp only: append_Nil)
  also have "\<dots> = u @ js ''```''"
    by (rule replace_g_absent [OF opening_absent_before_closing [OF nofence]])
  finally have first: "replace_g (js ''```json'') [] (js ''```json'' @ w1 @ s @ w2 @ js ''```'')
        = u @ js ''```''"
    by (simp only: u_def append_assoc)
  have "\<not> sublist [tick, tick, tick] u"
    using nofence unfolding F .
  then have "replace_g [tick, tick, tick] [] (u @ [tick, tick, tick]) = u"
    by (rule replace_g_closing_run)
  then have second: "replace_g (js ''```'') [] (u @ js ''```'') = u"
    by (simp only: F)
  have "cleanJsonResponse (js ''```json'' @ w1 @ s @ w2 @ js ''```'')
        = trim (replace_g (js ''```'') [] (u @ js ''```''))"
    by (simp only: cleanJsonResponse_def first)
  also have "\<dots> = trim u"
    by (simp only: second)
  also have "\<dots> = trim s"
    unfolding u_def by (rule trim_pad [OF assms(2) assms(3)])
  finally show ?thesis .
qed

text \<open>
  The scan of \<open>replace_g\<close> removes all occurrences in that sense, and nothing else does: the
  result is determined.
\<close>

lemma all_removed_Cons:
  assumes "\<not> prefix pat (x # s)" and "all_removed pat s r"
  shows "all_removed pat (x # s) (x # r)"
  using assms(2)
proof cases
  case absent
  with assms(1) have "\<not> sublist pat (x # s)"
    by (simp add: sublist_Cons_right)
  with absent show ?thesis
    by (simp add: all_removed.absent)
next
  case (leftmost a b r')
  have "prefix (x # a @ butlast pat) (x # s)"
  proof (cases "pat = []")
    case True
    then show ?thesis by (simp add: leftmost(1))
  next
    case False
    then have "pat = butlast pat @ [last pat]" by simp
    then have "x # s = (x # a @ butlast pat) @ ([last pat] @ b)"
      using leftmost(1) by (metis append.assoc append_Cons)
    then show ?thesis by (metis prefixI)
  qed
  with assms(1) have "\<not> prefix pat (x # a @ butlast pat)"
    using prefix_order.order_trans by blast
  with leftmost(3) have "\<not> sublist pat ((x # a) @ butlast pat)"
    by (simp add: sublist_Cons_right)
  then have "all_removed pat ((x # a) @ pat @ b) ((x # a) @ r')"
    using leftmost(4) by (rule all_removed.leftmost)
  with leftmost(1) leftmost(2) show ?thesis by simp
qed

lemma replace_g_all_removed: "pat \<noteq> [] \<Longrightarrow> all_removed pat s (replace_g pat [] s)"
proof (induction pat "[] :: 'a list" s rule: replace_g.induct)
  case (1 pat)
  then show ?case by (simp add: all_removed.absent)
next
  case (2 pat x xs)
  show ?case
  proof (cases "prefix pat (x # xs)")
    case True
    then obtain b where b: "x # xs = pat @ b"
      by (auto simp: prefix_def)
    then have d: "drop (length pat) (x # xs) = b"
      by (metis append_eq_conv_conj)
    from 2 True have "all_removed pat b (replace_g pat [] b)"
      by (simp only: d) simp
    moreover have "\<not> sublist pat ([] @ butlast pat)"
    proof
      assume "sublist pat ([] @ butlast pat)"
      then have "length pat \<le> length (butlast pat)"
        using sublist_length_le by fastforce
      moreover have "length (butlast pat) < length pat"
        using 2(3) by simp
      ultimately show False by linarith
    qed
    ultimately have "all_removed pat ([] @ pat @ b) ([] @ replace_g pat [] b)"
      by (rule all_removed.leftmost [rotated])
    moreover have "replace_g pat [] (x # xs) = replace_g pat [] b"
      using True 2(3) d by simp
    ultimately show ?thesis
      by (simp add: b)
  next
    case False
    with 2 have "all_removed pat xs (replace_g pat [] xs)"
      by simp
    with False have "all_removed pat (x # xs) (x # replace_g pat [] xs)"
      by (rule all_removed_Cons)
    with False show ?thesis by simp
  qed
qed

lemma leftmost_unique:
  assumes "a @ pat @ b = a' @ pat @ b'"
    and "\<not> sublist pat (a @ butlast pat)" and "\<not> sublist pat (a' @ butlast pat)"
  shows "a = a' \<and> b = b'"
proof -
  have no_shorter: False
    if eq: "u @ pat @ v = u' @ pat @ v'" and len: "length u < length u'"
      and no: "\<not> sublist pat (u' @ butlast pat)" for u v u' v' :: "'a list"
  proof -
    define c where "c = drop (length u) u'"
    have "take (length u) (u @ pat @ v) = take (length u) (u' @ pat @ v')"
      by (simp only: eq)
    with len have "u = take (length u) u'"
      by simp
    then have "u' = u @ c"
      unfolding c_def by (metis append_take_drop_id)
    moreover have "c \<noteq> []"
      using len unfolding c_def by simp
    moreover from eq \<open>u' = u @ c\<close> have "pat @ v = c @ pat @ v'"
      by simp
    ultimately have c: "u' = u @ c" "c \<noteq> []" "pat @ v = c @ pat @ v'"
      by blast+
    then have ne: "pat \<noteq> []"
      using no by auto
    then have split: "pat = butlast pat @ [last pat]" by simp
    have "length pat \<le> length (c @ butlast pat)"
      using c(2) by (cases c) auto
    moreover have "prefix (c @ butlast pat) (c @ pat @ v')"
      by (metis split append.assoc prefixI same_prefix_prefix)
    moreover have "prefix pat (c @ pat @ v')"
      by (metis c(3) prefixI)
    ultimately have "prefix pat (c @ butlast pat)"
      by (metis prefix_length_prefix)
    then have "sublist pat (u @ c @ butlast pat)"
      by (metis prefix_imp_sublist sublist_append_leftI sublist_order.order_trans)
    with no c(1) show False by simp
  qed
  have "length a = length a'"
    using no_shorter [OF assms(1) _ assms(3)] no_shorter [OF assms(1) [symmetric] _ assms(2)]
    by (meson linorder_neqE_nat)
  with assms(1) show ?thesis by simp
qed

lemma all_removed_unique:
  "all_removed pat s r \<Longrightarrow> all_removed pat s r' \<Longrightarrow> r = r'"
proof (induction arbitrary: r' rule: all_removed.induct)
  case (absent s)
  from absent(2) show ?case
  proof cases
    case absent
    then show ?thesis by simp
  next
    case (leftmost a b r)
    with absent(1) show ?thesis by auto
  qed
next
  case (leftmost a b r)
  from leftmost(4) show ?case
  proof cases
    case absent
    then show ?thesis by auto
  next
    case (leftmost a' b' r'')
    then have "a = a' \<and> b = b'"
      using leftmost_unique [of a pat b a' b'] \<open>\<not> sublist pat (a @ butlast pat)\<close> by blast
    with leftmost \<open>\<And>r'. all_removed pat b r' \<Longrightarrow> r = r'\<close> show ?thesis
      by blast
  qed
qed

lemma fences_around:
  assumes "0x60 \<notin> set x"
  shows "cleanJsonResponse (js ''```'' @ x @ js ''```'')
     = trim (if prefix (js ''json'') x then drop 4 x else x)"
proof -
  define tick :: code_unit where "tick = 0x60"
  have F: "js ''```'' = [tick, tick, tick]"
    by (simp add: js_def tick_def)
  have J: "js ''```json'' = js ''```'' @ js ''json''"
    by (simp add: js_def)
  have nofence: "\<not> sublist (js ''```'') y" if "set y \<subseteq> set x" for y
  proof
    assume "sublist (js ''```'') y"
    then have "set (js ''```'') \<subseteq> set y"
      by (rule set_mono_sublist)
    with that assms show False
      by (auto simp: js_def)
  qed
  have close3: "replace_g (js ''```'') [] (y @ js ''```'') = y" if "set y \<subseteq> set x" for y
    using replace_g_closing_run [of tick y] nofence [OF that] by (simp add: F)
  show ?thesis
  proof (cases "prefix (js ''json'') x")
    case True
    then obtain y where y: "x = js ''json'' @ y"
      by (auto simp: prefix_def)
    then have sub: "set y \<subseteq> set x" by auto
    have d: "drop 4 x = y"
      by (simp add: y js_def)
    have nonempty: "js ''```json'' \<noteq> []"
      by (simp add: js_def)
    have "replace_g (js ''```json'') [] (js ''```json'' @ (y @ js ''```''))
        = replace_g (js ''```json'') [] (y @ js ''```'')"
      using replace_g_head [OF nonempty, of "[]" "y @ js ''```''"] by (simp only: append_Nil)
    also have "\<dots> = y @ js ''```''"
      by (rule replace_g_absent [OF opening_absent_before_closing [OF nofence [OF sub]]])
    finally have "replace_g (js ''```json'') [] (js ''```'' @ x @ js ''```'') = y @ js ''```''"
      by (simp add: y J)
    then have "cleanJsonResponse (js ''```'' @ x @ js ''```'') = trim y"
      by (simp only: cleanJsonResponse_def close3 [OF sub])
    with True d show ?thesis by simp
  next
    case False
    have notick: "c \<noteq> tick" if "c \<in> set x" for c
      using that assms by (auto simp: tick_def)
    have "\<not> sublist (js ''```json'') (x @ js ''```'')"
      by (rule opening_absent_before_closing [OF nofence]) simp
    moreover have "\<not> prefix (js ''json'') (x @ js ''```'')"
    proof
      assume "prefix (js ''json'') (x @ js ''```'')"
      with False obtain us where us: "js ''json'' = x @ us" "us \<noteq> []" "prefix us (js ''```'')"
        by (auto simp: prefix_append)
      then have "hd us = tick"
        by (cases us) (auto simp: F)
      moreover have "hd us \<in> set (js ''json'')"
        using us(1) us(2) by (cases us) auto
      ultimately show False
        by (auto simp: js_def tick_def)
    qed
    moreover have "\<not> prefix (tick # ys) (x @ js ''```'')" if "ys = js ''json'' \<or> ys = tick # js ''json''" for ys
      using notick that by (cases x) (auto simp: F js_def tick_def)
    ultimately have "\<not> sublist (js ''```json'') (js ''```'' @ x @ js ''```'')"
      by (simp add: F J sublist_Cons_right)
    then have "replace_g (js ''```json'') [] (js ''```'' @ x @ js ''```'') = js ''```'' @ x @ js ''```''"
      by (rule replace_g_absent)
    moreover have "replace_g (js ''```'') [] (js ''```'' @ (x @ js ''```''))
        = replace_g (js ''```'') [] (x @ js ''```'')"
      using replace_g_head [of "js ''```''" "[]" "x @ js ''```''"] by (simp add: F)
    ultimately have "cleanJsonResponse (js ''```'' @ x @ js ''```'') = trim x"
      by (simp add: cleanJsonResponse_def close3)
    with False show ?thesis by simp
  qed
qed

section \<open>The normalizer: claims\<close>

text \<open>
  C8. The normalizer is idempotent: applied to its own result it changes nothing, because
  the result holds no three consecutive backticks and is already trimmed.
\<close>

theorem cleanJsonResponse_idempotent:
  "cleanJsonResponse (cleanJsonResponse s) = cleanJsonResponse s"
proof -
  have "cleanJsonResponse (cleanJsonResponse s) = trim (cleanJsonResponse s)"
    by (rule clean_absent [OF clean_no_fence])
  also have "\<dots> = cleanJsonResponse s"
    by (rule clean_trimmed)
  finally show ?thesis .
qed

text \<open>
  C4. For a text \<open>s\<close> without fence markers, the normalizer gives the same string for
  \<open>s\<close> between an opening fence with the tag json and a closing fence (with or without
  white space, such as a line break, between the fences and \<open>s\<close>) as for \<open>s\<close> alone; on
  \<open>s\<close> alone it only trims; so both parse to the same structure.
\<close>

theorem fenced_same_as_bare:
  assumes "\<not> sublist (js ''```'') s"
    and "list_all isWhiteSpace w1" and "list_all isWhiteSpace w2"
  shows "cleanJsonResponse (js ''```json'' @ w1 @ s @ w2 @ js ''```'') = cleanJsonResponse s
       \<and> cleanJsonResponse s = trim s
       \<and> JSON_parse (cleanJsonResponse (js ''```json'' @ w1 @ s @ w2 @ js ''```''))
           = JSON_parse (cleanJsonResponse s)"
  using clean_fenced [OF assms] clean_absent [OF assms(1)] by simp

theorem fenced_same_as_bare_witness:
  "\<not> sublist (js ''```'') catJson \<and> list_all isWhiteSpace [0x0A]
   \<and> cleanJsonResponse (js ''```json'' @ [0x0A] @ catJson @ [0x0A] @ js ''```'')
       = cleanJsonResponse catJson
   \<and> JSON_parse (cleanJsonResponse (js ''```json'' @ [0x0A] @ catJson @ [0x0A] @ js ''```''))
       = Some (JArray [JObject [(js ''en'', JString (js ''cat'')), (js ''cn'', JString [0x732B])]])"
proof -
  have h1: "\<not> sublist (js ''```'') catJson"
    by code_simp
  have h2: "list_all isWhiteSpace [0x0A]"
    by (simp add: isWhiteSpace_def)
  have p: "JSON_parse (cleanJsonResponse catJson)
      = Some (JArray [JObject [(js ''en'', JString (js ''cat'')), (js ''cn'', JString [0x732B])]])"
    by code_simp
  show ?thesis
    using fenced_same_as_bare [OF h1 h2 h2] h1 h2 p by simp
qed

text \<open>
  C5, as amended. For every input, the normalizer removes all occurrences of the opening
  fence with the tag json (the seven characters, taken from left to right without overlap),
  then all occurrences of three backticks from what is left, and trims what is then left:
  this determines its result, which holds no fence marker and is trimmed. In particular,
  of fences around a text that holds no backtick, the backticks go and of a tag only a
  leading json goes: any other tag, and what follows json in a longer tag, stays.
\<close>

theorem cleanJsonResponse_strips:
  "(\<exists>u v. all_removed (js ''```json'') t u \<and> all_removed (js ''```'') u v
           \<and> cleanJsonResponse t = trim v)
   \<and> (\<forall>u v. all_removed (js ''```json'') t u \<and> all_removed (js ''```'') u v \<longrightarrow>
           cleanJsonResponse t = trim v)
   \<and> \<not> sublist (js ''```'') (cleanJsonResponse t)
   \<and> trim (cleanJsonResponse t) = cleanJsonResponse t
   \<and> (0x60 \<notin> set x \<longrightarrow>
        cleanJsonResponse (js ''```'' @ x @ js ''```'')
          = trim (if prefix (js ''json'') x then drop 4 x else x))"
proof -
  let ?u = "replace_g (js ''```json'') [] t"
  let ?v = "replace_g (js ''```'') [] ?u"
  have J: "js ''```json'' \<noteq> []" and F: "js ''```'' \<noteq> []"
    by (simp_all add: js_def)
  have first: "all_removed (js ''```json'') t ?u"
    by (rule replace_g_all_removed [OF J])
  have second: "all_removed (js ''```'') ?u ?v"
    by (rule replace_g_all_removed [OF F])
  have result: "cleanJsonResponse t = trim ?v"
    by (simp only: cleanJsonResponse_def)
  have "cleanJsonResponse t = trim v"
    if "all_removed (js ''```json'') t u" and "all_removed (js ''```'') u v" for u v
  proof -
    from that(1) first have "u = ?u"
      by (rule all_removed_unique)
    with that(2) second have "v = ?v"
      using all_removed_unique by blast
    with result show ?thesis by simp
  qed
  with first second result show ?thesis
    using clean_no_fence [of t] clean_trimmed [of t] fences_around [of x]
    by blast
qed

theorem cleanJsonResponse_strips_witness:
  "all_removed (js ''```json'') (js ''x'' @ js ''```json'' @ js ''[1]```'') (js ''x'' @ js ''[1]```'')
   \<and> all_removed (js ''```'') (js ''x'' @ js ''[1]```'') (js ''x[1]'')
   \<and> cleanJsonResponse (js ''x'' @ js ''```json'' @ js ''[1]```'') = js ''x[1]''
   \<and> 0x60 \<notin> set (js ''json5'' @ [0x0A] @ js ''{}'' @ [0x0A])
   \<and> cleanJsonResponse (js ''```'' @ (js ''json5'' @ [0x0A] @ js ''{}'' @ [0x0A]) @ js ''```'')
       = js ''5'' @ [0x0A] @ js ''{}''"
proof -
  let ?t = "js ''x'' @ js ''```json'' @ js ''[1]```''"
  let ?x = "js ''json5'' @ [0x0A] @ js ''{}'' @ [0x0A]"
  have a1: "\<not> sublist (js ''```json'') (js ''x'' @ butlast (js ''```json''))"
    and a2: "\<not> sublist (js ''```json'') (js ''[1]```'')"
    and a3: "\<not> sublist (js ''```'') (js ''x[1]'' @ butlast (js ''```''))"
    and a4: "\<not> sublist (js ''```'') ([] :: jsstring)"
    by code_simp+
  have s1: "all_removed (js ''```json'') ?t (js ''x'' @ js ''[1]```'')"
    by (rule all_removed.leftmost [OF a1 all_removed.absent [OF a2]])
  have e: "js ''x'' @ js ''[1]```'' = js ''x[1]'' @ js ''```'' @ []" "js ''x[1]'' = js ''x[1]'' @ []"
    by (simp_all add: js_def)
  have "all_removed (js ''```'') (js ''x[1]'' @ js ''```'' @ []) (js ''x[1]'' @ [])"
    by (rule all_removed.leftmost [OF a3 all_removed.absent [OF a4]])
  then have s2: "all_removed (js ''```'') (js ''x'' @ js ''[1]```'') (js ''x[1]'')"
    by (simp only: e [symmetric])
  have t1: "trim (js ''x[1]'') = js ''x[1]''"
    by code_simp
  have h: "0x60 \<notin> set ?x"
    by (simp add: js_def)
  have t2: "trim (if prefix (js ''json'') ?x then drop 4 ?x else ?x) = js ''5'' @ [0x0A] @ js ''{}''"
    by code_simp
  from cleanJsonResponse_strips [of ?t ?x] s1 s2
  have "cleanJsonResponse ?t = trim (js ''x[1]'')"
    by blast
  moreover from cleanJsonResponse_strips [of ?t ?x] h
  have "cleanJsonResponse (js ''```'' @ ?x @ js ''```'')
      = trim (if prefix (js ''json'') ?x then drop 4 ?x else ?x)"
    by blast
  ultimately show ?thesis
    using s1 s2 h by (simp only: t1 t2 simp_thms)
qed

text \<open>
  The claim as stated fails for the tag js: the three backticks go, the tag stays.
\<close>

theorem language_tag_remains:
  "cleanJsonResponse (js ''```js'' @ [0x0A] @ js ''[]'' @ [0x0A] @ js ''```'')
     = js ''js'' @ [0x0A] @ js ''[]''
   \<and> cleanJsonResponse (js ''```js'' @ [0x0A] @ js ''[]'' @ [0x0A] @ js ''```'')
       \<noteq> cleanJsonResponse (js ''[]'')
   \<and> JSON_parse (cleanJsonResponse (js ''```js'' @ [0x0A] @ js ''[]'' @ [0x0A] @ js ''```''))
       = None"
  by code_simp

section \<open>The dispatcher: claims\<close>

lemma presented_chat: "presentedCredential (Fetch (chatRequest key prompt settings sch)) = key"
  by (simp add: presentedCredential_def chatRequest_def js_def)

lemma presented_generation:
  "presentedCredential (GenerateContent (generationRequest key prompt settings sch)) = key"
  by (simp add: presentedCredential_def generationRequest_def)

lemma callAi_calls:
  "fst (callAi pf prompt settings sch) =
     (if apiKey pf settings = [] then []
      else if prefix (js ''sk-'') (apiKey pf settings)
      then [Fetch (chatRequest (apiKey pf settings) prompt settings sch)]
      else [GenerateContent (generationRequest (apiKey pf settings) prompt settings sch)])"
  by (simp add: callAi_def Let_def)

text \<open>
  C1. The credential the dispatcher uses is the key of the settings when there is one,
  otherwise the process-level default; every call it makes carries that credential; and
  when neither is present it fails with the fixed message and makes no call.
\<close>

theorem callAi_credential:
  "apiKey pf settings =
     (if customApiKey settings \<noteq> [] then customApiKey settings
      else case API_KEY pf of Some k \<Rightarrow> k | None \<Rightarrow> [])
   \<and> list_all (\<lambda>c. presentedCredential c = apiKey pf settings)
         (fst (callAi pf prompt settings sch))
   \<and> (customApiKey settings = [] \<and> (API_KEY pf = None \<or> API_KEY pf = Some []) \<longrightarrow>
        callAi pf prompt settings sch = ([], Inl (Error API_KEY_MISSING)))"
proof (intro conjI impI)
  show "apiKey pf settings =
     (if customApiKey settings \<noteq> [] then customApiKey settings
      else case API_KEY pf of Some k \<Rightarrow> k | None \<Rightarrow> [])"
    by (simp add: apiKey_def split: option.splits)
next
  show "list_all (\<lambda>c. presentedCredential c = apiKey pf settings)
         (fst (callAi pf prompt settings sch))"
    by (simp add: callAi_calls presented_chat presented_generation)
next
  assume "customApiKey settings = [] \<and> (API_KEY pf = None \<or> API_KEY pf = Some [])"
  then have "apiKey pf settings = []"
    by (auto simp: apiKey_def)
  then show "callAi pf prompt settings sch = ([], Inl (Error API_KEY_MISSING))"
    by (simp add: callAi_def)
qed

theorem callAi_credential_witness:
  "customApiKey defaultSettings = []
   \<and> API_KEY (mockPlatform None notMocked notMocked) = None
   \<and> callAi (mockPlatform None notMocked notMocked) (js ''hello'') defaultSettings None
       = ([], Inl (Error API_KEY_MISSING))"
  using callAi_credential
    [of "mockPlatform None notMocked notMocked" defaultSettings "js ''hello''" None]
  by (simp add: defaultSettings_def mockPlatform_def)

text \<open>
  C2. With a credential that begins with \<open>sk-\<close> the dispatcher makes exactly one call, a
  POST to the base URL followed by \<open>/v1/chat/completions\<close>, and none to the native
  endpoint; with any other credential it makes exactly one call, to the native endpoint,
  and builds no HTTP request.
\<close>

theorem callAi_route:
  assumes "apiKey pf settings \<noteq> []"
  shows "(prefix (js ''sk-'') (apiKey pf settings) \<longrightarrow>
            fst (callAi pf prompt settings sch)
              = [Fetch (chatRequest (apiKey pf settings) prompt settings sch)]
            \<and> http_method (chatRequest (apiKey pf settings) prompt settings sch) = js ''POST''
            \<and> url (chatRequest (apiKey pf settings) prompt settings sch)
                = cleanBaseUrl settings @ js ''/v1/chat/completions'')
       \<and> (\<not> prefix (js ''sk-'') (apiKey pf settings) \<longrightarrow>
            fst (callAi pf prompt settings sch)
              = [GenerateContent (generationRequest (apiKey pf settings) prompt settings sch)])"
  using assms by (simp add: callAi_calls chatRequest_def chatCompletionsUrl_def)

theorem callAi_route_witness:
  "fst (callAi (mockPlatform None notMocked notMocked) (js ''hello'')
          (defaultSettings\<lparr>customApiKey := js ''sk-test'', baseUrl := js ''https://host''\<rparr>) None)
     = [Fetch \<lparr>url = js ''https://host/v1/chat/completions'',
               http_method = js ''POST'',
               headers = [(js ''Content-Type'', js ''application/json''),
                          (js ''Authorization'', js ''Bearer sk-test'')],
               body = JObject
                 [(js ''model'', JString (js ''gemini-3-flash-preview'')),
                  (js ''messages'',
                     JArray [JObject [(js ''role'', JString (js ''user'')),
                                      (js ''content'', JString (js ''hello''))]]),
                  (js ''temperature'', JNumber (js ''0.7''))]\<rparr>]
   \<and> fst (callAi (mockPlatform None notMocked notMocked) (js ''hello'')
          (defaultSettings\<lparr>customApiKey := js ''AIza''\<rparr>) None)
     = [GenerateContent \<lparr>credential = js ''AIza'',
                         model = js ''gemini-3-flash-preview'',
                         contents = js ''hello'',
                         config = None\<rparr>]"
proof -
  let ?pf = "mockPlatform None notMocked notMocked"
  let ?sk = "defaultSettings\<lparr>customApiKey := js ''sk-test'', baseUrl := js ''https://host''\<rparr>"
  let ?na = "defaultSettings\<lparr>customApiKey := js ''AIza''\<rparr>"
  have k1: "apiKey ?pf ?sk = js ''sk-test''" and k2: "apiKey ?pf ?na = js ''AIza''"
    by (simp_all add: apiKey_def defaultSettings_def js_def)
  have n1: "apiKey ?pf ?sk \<noteq> []" and n2: "apiKey ?pf ?na \<noteq> []"
    unfolding k1 k2 by (simp_all add: js_def)
  have p1: "prefix (js ''sk-'') (apiKey ?pf ?sk)" and p2: "\<not> prefix (js ''sk-'') (apiKey ?pf ?na)"
    unfolding k1 k2 by (simp_all add: js_def)
  have r1: "chatRequest (js ''sk-test'') (js ''hello'') ?sk None =
      \<lparr>url = js ''https://host/v1/chat/completions'',
       http_method = js ''POST'',
       headers = [(js ''Content-Type'', js ''application/json''),
                  (js ''Authorization'', js ''Bearer sk-test'')],
       body = JObject
         [(js ''model'', JString (js ''gemini-3-flash-preview'')),
          (js ''messages'',
             JArray [JObject [(js ''role'', JString (js ''user'')),
                              (js ''content'', JString (js ''hello''))]]),
          (js ''temperature'', JNumber (js ''0.7''))]\<rparr>"
    by (simp add: chatRequest_def chatCompletionsUrl_def cleanBaseUrl_def finalPrompt_def
        defaultSettings_def js_def suffix_def)
  have r2: "generationRequest (js ''AIza'') (js ''hello'') ?na None =
      \<lparr>credential = js ''AIza'', model = js ''gemini-3-flash-preview'',
       contents = js ''hello'', config = None\<rparr>"
    by (simp add: generationRequest_def defaultSettings_def js_def)
  show ?thesis
    using callAi_route [OF n1, of "js ''hello''" None] callAi_route [OF n2, of "js ''hello''" None]
      p1 p2
    by (simp only: k1 k2 r1 r2 simp_thms)
qed

lemma callAi_not_ok:
  assumes "prefix (js ''sk-'') (apiKey pf settings)"
    and "fetch pf (chatRequest (apiKey pf settings) prompt settings sch) = Inr response"
    and "\<not> ok response"
  shows "snd (callAi pf prompt settings sch) = Inl (httpFailure response)"
proof -
  from assms(1) have "apiKey pf settings \<noteq> []"
    by (auto simp: js_def)
  with assms show ?thesis
    by (simp add: callAi_def Let_def)
qed

lemma httpFailure_message:
  assumes "JSON_parse (payload response) = Some (JObject kvs)"
    and "map_of kvs (js ''error'') = Some (JObject ekvs)"
    and "map_of ekvs (js ''message'') = Some (JString m)"
    and "m \<noteq> []"
  shows "httpFailure response = Error m"
  using assms by (simp add: httpFailure_def getProp_def getOptional_def)

lemma httpFailure_unparseable:
  assumes "JSON_parse (payload response) = None"
  shows "httpFailure response = Error (js ''HTTP '' @ decimal (status response))"
proof -
  have "js ''error'' \<noteq> []" "js ''message'' \<noteq> []" "js ''HTTP '' @ decimal (status response) \<noteq> []"
    by (simp_all add: js_def)
  with assms show ?thesis
    by (simp add: httpFailure_def getProp_def getOptional_def)
qed

text \<open>
  C3, as amended. On the OpenAI-compatible path, when the response is not a success: if the
  body parses to an object whose \<open>error\<close> is an object whose \<open>message\<close> is a string that
  is not empty, the dispatcher fails with exactly that message; if the body does not parse,
  it fails with \<open>HTTP\<close> followed by the status code in decimal.
\<close>

theorem callAi_http_failure:
  assumes "prefix (js ''sk-'') (apiKey pf settings)"
    and "fetch pf (chatRequest (apiKey pf settings) prompt settings sch) = Inr response"
    and "\<not> ok response"
  shows "(JSON_parse (payload response) = Some (JObject kvs)
          \<and> map_of kvs (js ''error'') = Some (JObject ekvs)
          \<and> map_of ekvs (js ''message'') = Some (JString m) \<and> m \<noteq> [] \<longrightarrow>
            snd (callAi pf prompt settings sch) = Inl (Error m))
       \<and> (JSON_parse (payload response) = None \<longrightarrow>
            snd (callAi pf prompt settings sch)
              = Inl (Error (js ''HTTP '' @ decimal (status response)))
            \<and> sublist (decimal (status response)) (js ''HTTP '' @ decimal (status response)))"
  using callAi_not_ok [OF assms] httpFailure_message [of response kvs ekvs m]
    httpFailure_unparseable [of response]
  by auto

theorem callAi_http_failure_witness:
  "snd (callAi (mockPlatform None (Inr \<lparr>status = 401, payload = invalidKeyBody\<rparr>) notMocked)
          (js ''hello'') (defaultSettings\<lparr>customApiKey := js ''sk-test''\<rparr>) None)
     = Inl (Error (js ''invalid key''))
   \<and> snd (callAi (mockPlatform None (Inr \<lparr>status = 500, payload = js ''<html>''\<rparr>) notMocked)
          (js ''hello'') (defaultSettings\<lparr>customApiKey := js ''sk-test''\<rparr>) None)
     = Inl (Error (js ''HTTP 500''))"
proof -
  let ?st = "defaultSettings\<lparr>customApiKey := js ''sk-test''\<rparr>"
  let ?r1 = "\<lparr>status = 401, payload = invalidKeyBody\<rparr>"
  let ?r2 = "\<lparr>status = 500, payload = js ''<html>''\<rparr>"
  let ?pf1 = "mockPlatform None (Inr ?r1) notMocked"
  let ?pf2 = "mockPlatform None (Inr ?r2) notMocked"
  have k: "apiKey pf ?st = js ''sk-test''" for pf
    by (simp add: apiKey_def defaultSettings_def js_def)
  have p: "prefix (js ''sk-'') (apiKey pf ?st)" for pf
    unfolding k by (simp add: js_def)
  have f1: "fetch ?pf1 (chatRequest (apiKey ?pf1 ?st) (js ''hello'') ?st None) = Inr ?r1"
    and f2: "fetch ?pf2 (chatRequest (apiKey ?pf2 ?st) (js ''hello'') ?st None) = Inr ?r2"
    by (simp_all add: mockPlatform_def)
  have n1: "\<not> ok ?r1" and n2: "\<not> ok ?r2"
    by (simp_all add: ok_def)
  have b1: "JSON_parse (payload ?r1)
      = Some (JObject [(js ''error'', JObject [(js ''message'', JString (js ''invalid key''))])])"
    by code_simp
  have b2: "JSON_parse (payload ?r2) = None"
    by code_simp
  have m1: "map_of [(js ''error'', JObject [(js ''message'', JString (js ''invalid key''))])]
      (js ''error'') = Some (JObject [(js ''message'', JString (js ''invalid key''))])"
    and m2: "map_of [(js ''message'', JString (js ''invalid key''))] (js ''message'')
      = Some (JString (js ''invalid key''))"
    and m3: "js ''invalid key'' \<noteq> []"
    by (simp_all add: js_def)
  have d: "js ''HTTP '' @ decimal (status ?r2) = js ''HTTP 500''"
    by code_simp
  from callAi_http_failure [OF p f1 n1,
      of "[(js ''error'', JObject [(js ''message'', JString (js ''invalid key''))])]"
         "[(js ''message'', JString (js ''invalid key''))]" "js ''invalid key''"]
    b1 m1 m2 m3
  have one: "snd (callAi ?pf1 (js ''hello'') ?st None) = Inl (Error (js ''invalid key''))"
    by blast
  from callAi_http_failure [OF p f2 n2] b2
  have "snd (callAi ?pf2 (js ''hello'') ?st None)
      = Inl (Error (js ''HTTP '' @ decimal (status ?r2)))"
    by blast
  then have two: "snd (callAi ?pf2 (js ''hello'') ?st None) = Inl (Error (js ''HTTP 500''))"
    by (simp only: d)
  from one two show ?thesis by (rule conjI)
qed

text \<open>
  The claim as stated fails when the \<open>message\<close> field is the empty string: the failure
  message is then the generic one, not the field.
\<close>

theorem empty_message_is_replaced:
  "JSON_parse emptyMessageBody
     = Some (JObject [(js ''error'', JObject [(js ''message'', JString [])])])
   \<and> snd (callAi (mockPlatform None (Inr \<lparr>status = 401, payload = emptyMessageBody\<rparr>) notMocked)
          (js ''hello'') (defaultSettings\<lparr>customApiKey := js ''sk-test''\<rparr>) None)
     = Inl (Error (REQUEST_FAILED @ js ''401''))
   \<and> snd (callAi (mockPlatform None (Inr \<lparr>status = 401, payload = emptyMessageBody\<rparr>) notMocked)
          (js ''hello'') (defaultSettings\<lparr>customApiKey := js ''sk-test''\<rparr>) None)
     \<noteq> Inl (Error [])"
  by code_simp

text \<open>
  C10, as amended. The request URL is the base URL without one trailing slash, if it has
  one, followed by \<open>/v1/chat/completions\<close>; the empty base URL is replaced by
  \<open>https://api.openai.com\<close>; and a base URL of at least two characters that ends in
  exactly one slash gives the same URL as the base URL without that slash.
\<close>

theorem chatCompletionsUrl_trailing_slash:
  "url (chatRequest key prompt settings sch) = chatCompletionsUrl settings
   \<and> (baseUrl settings = [] \<longrightarrow>
        chatCompletionsUrl settings = js ''https://api.openai.com/v1/chat/completions'')
   \<and> (baseUrl settings \<noteq> [] \<and> \<not> suffix (js ''/'') (baseUrl settings) \<longrightarrow>
        chatCompletionsUrl settings = baseUrl settings @ js ''/v1/chat/completions'')
   \<and> (baseUrl settings = b @ js ''/'' \<longrightarrow>
        chatCompletionsUrl settings = b @ js ''/v1/chat/completions'')
   \<and> (b \<noteq> [] \<and> \<not> suffix (js ''/'') b \<longrightarrow>
        chatCompletionsUrl (settings\<lparr>baseUrl := b @ js ''/''\<rparr>)
          = chatCompletionsUrl (settings\<lparr>baseUrl := b\<rparr>))"
proof -
  have slash: "js ''/'' = [0x2F]"
    by (simp add: js_def)
  have default: "cleanBaseUrl settings = js ''https://api.openai.com''" if "baseUrl settings = []"
    using that by (simp add: cleanBaseUrl_def js_def suffix_def)
  have kept: "cleanBaseUrl s = baseUrl s"
    if "baseUrl s \<noteq> []" "\<not> suffix (js ''/'') (baseUrl s)" for s :: AppSettings
    using that by (simp add: cleanBaseUrl_def)
  have cut: "cleanBaseUrl s = c" if "baseUrl s = c @ js ''/''" for s :: AppSettings and c
    using that by (simp add: cleanBaseUrl_def slash suffix_def butlast_append)
  show ?thesis
    using default kept [of settings] cut [of settings b]
      cut [of "settings\<lparr>baseUrl := b @ js ''/''\<rparr>" b] kept [of "settings\<lparr>baseUrl := b\<rparr>"]
    by (auto simp: chatCompletionsUrl_def chatRequest_def js_def)
qed

theorem chatCompletionsUrl_trailing_slash_witness:
  "js ''https://host'' \<noteq> [] \<and> \<not> suffix (js ''/'') (js ''https://host'')
   \<and> chatCompletionsUrl (defaultSettings\<lparr>baseUrl := js ''https://host'' @ js ''/''\<rparr>)
       = js ''https://host'' @ js ''/v1/chat/completions''
   \<and> chatCompletionsUrl (defaultSettings\<lparr>baseUrl := js ''https://host'' @ js ''/''\<rparr>)
       = chatCompletionsUrl (defaultSettings\<lparr>baseUrl := js ''https://host''\<rparr>)
   \<and> chatCompletionsUrl (defaultSettings\<lparr>baseUrl := []\<rparr>)
       = js ''https://api.openai.com/v1/chat/completions''"
proof -
  have h1: "js ''https://host'' \<noteq> []" and h2: "\<not> suffix (js ''/'') (js ''https://host'')"
    by (simp_all add: js_def suffix_def)
  have b1: "baseUrl (defaultSettings\<lparr>baseUrl := js ''https://host'' @ js ''/''\<rparr>)
      = js ''https://host'' @ js ''/''"
    and b2: "baseUrl (defaultSettings\<lparr>baseUrl := []\<rparr>) = []"
    by simp_all
  show ?thesis
    using chatCompletionsUrl_trailing_slash
        [of "[]" "[]" "defaultSettings\<lparr>baseUrl := js ''https://host'' @ js ''/''\<rparr>" None
            "js ''https://host''"]
      chatCompletionsUrl_trailing_slash
        [of "[]" "[]" "defaultSettings" None "js ''https://host''"]
      chatCompletionsUrl_trailing_slash
        [of "[]" "[]" "defaultSettings\<lparr>baseUrl := []\<rparr>" None "[]"]
      h1 h2 b1 b2
    by blast
qed

text \<open>
  The claim as stated fails for the base URL \<open>/\<close>: without its slash it is empty, and
  the empty base URL is replaced by the default.
\<close>

theorem lone_slash_differs:
  "chatCompletionsUrl (defaultSettings\<lparr>baseUrl := js ''/''\<rparr>) = js ''/v1/chat/completions''
   \<and> chatCompletionsUrl (defaultSettings\<lparr>baseUrl := []\<rparr>)
       = js ''https://api.openai.com/v1/chat/completions''
   \<and> chatCompletionsUrl (defaultSettings\<lparr>baseUrl := js ''/''\<rparr>)
       \<noteq> chatCompletionsUrl (defaultSettings\<lparr>baseUrl := []\<rparr>)"
  by code_simp

section \<open>The fetch functions: claims\<close>

lemma snd_fetchWordPairs:
  "snd (fetchWordPairs pf userWords settings) =
     andThen (snd (callAi pf (wordPairsPrompt userWords) settings (Some WordPairsSchema))) (\<lambda>t.
     andThen (parseResponse t (js ''[]'')) (\<lambda>rawPairs.
       case rawPairs of
         JArray ps \<Rightarrow> mapPairs (Date_now pf) 0 ps
       | _ \<Rightarrow> Inl TypeError))"
  by (simp add: fetchWordPairs_def split: prod.splits)

lemma snd_fetchContextQuestions:
  "snd (fetchContextQuestions pf userWords allow count settings) =
     andThen (snd (callAi pf (contextPrompt userWords allow count) settings
                     (Some ContextQuestionsSchema)))
       (\<lambda>t. parseResponse t (js ''[]''))"
  by (simp add: fetchContextQuestions_def split: prod.splits)

lemma snd_fetchGrammarData:
  "snd (fetchGrammarData pf grammarPoint grade count settings) =
     andThen (snd (callAi pf (grammarPrompt grammarPoint grade count) settings
                     (Some GrammarDataSchema)))
       (\<lambda>t. parseResponse t (js ''{}''))"
  by (simp add: fetchGrammarData_def split: prod.splits)

lemma callAi_native:
  assumes "apiKey pf settings \<noteq> []" and "\<not> prefix (js ''sk-'') (apiKey pf settings)"
    and "generateContent pf (generationRequest (apiKey pf settings) prompt settings sch) = Inr t"
  shows "snd (callAi pf prompt settings sch)
     = Inr (Some (JString (case t of None \<Rightarrow> [] | Some s \<Rightarrow> trim s)))"
  using assms by (simp add: callAi_def Let_def)

lemma mock_native_text:
  "snd (callAi (mockPlatform k r (Inr t)) prompt (defaultSettings\<lparr>customApiKey := js ''AIza''\<rparr>) sch)
     = Inr (Some (JString (case t of None \<Rightarrow> [] | Some s \<Rightarrow> trim s)))"
  by (simp add: callAi_def apiKey_def mockPlatform_def defaultSettings_def js_def Let_def)

lemma parseResponse_empty_array: "parseResponse (Some (JString [])) (js ''[]'') = Inr (JArray [])"
  by code_simp

lemma parseResponse_empty_object: "parseResponse (Some (JString [])) (js ''{}'') = Inr (JObject [])"
  by code_simp

lemma parseResponse_invalid:
  assumes "raw \<noteq> []" and "JSON_parse (cleanJsonResponse raw) = None"
  shows "parseResponse (Some (JString raw)) d = Inl SyntaxError"
  using assms by (simp add: parseResponse_def textOr_def andThen_def)

lemma getProp_member: "p \<noteq> JNull \<Longrightarrow> getProp (Some p) k = Inr (member p k)"
  by (cases p) (simp_all add: getProp_def)

lemma mapPairs_members:
  "JNull \<notin> set ps \<Longrightarrow>
   mapPairs now i ps =
     Inr (map (\<lambda>j. \<lparr>id_str = pairId (i + j) (now (i + j)),
                     en = member (ps ! j) (js ''en''),
                     cn = member (ps ! j) (js ''cn'')\<rparr>) [0..<length ps])"
proof (induction ps arbitrary: i)
  case Nil
  show ?case by simp
next
  case (Cons p ps)
  then have p: "p \<noteq> JNull" and rest: "JNull \<notin> set ps"
    by auto
  show ?case
    by (simp only: mapPairs.simps getProp_member [OF p] Cons.IH [OF rest] andThen_def
        sum.case length_Cons map_upt_Suc)
       simp
qed

text \<open>
  C9. When the native provider's response has no text or an empty text, the dispatcher
  returns the empty string, and none of the three fetch functions fails:
  \<open>fetchWordPairs\<close> and \<open>fetchContextQuestions\<close> return the empty list,
  \<open>fetchGrammarData\<close> the empty record.
\<close>

theorem empty_native_text_defaults:
  assumes "apiKey pf settings \<noteq> []" and "\<not> prefix (js ''sk-'') (apiKey pf settings)"
    and "\<And>request. generateContent pf request = Inr t"
    and "t = None \<or> t = Some []"
  shows "snd (callAi pf prompt settings sch) = Inr (Some (JString []))
       \<and> snd (fetchWordPairs pf userWords settings) = Inr []
       \<and> snd (fetchContextQuestions pf userWords allow count settings) = Inr (JArray [])
       \<and> snd (fetchGrammarData pf grammarPoint grade count settings) = Inr (JObject [])"
proof -
  from assms(4) have e: "(case t of None \<Rightarrow> [] | Some s \<Rightarrow> trim s) = []"
    by (auto simp: trim_def)
  have empty: "snd (callAi pf p settings s) = Inr (Some (JString []))" for p s
    using callAi_native [OF assms(1) assms(2) assms(3)] by (simp only: e)
  show ?thesis
    by (simp add: empty snd_fetchWordPairs snd_fetchContextQuestions snd_fetchGrammarData
        andThen_def parseResponse_empty_array parseResponse_empty_object)
qed

theorem empty_native_text_defaults_witness:
  "snd (callAi (mockPlatform None notMocked (Inr None)) (js ''hello'')
          (defaultSettings\<lparr>customApiKey := js ''AIza''\<rparr>) None) = Inr (Some (JString []))
   \<and> snd (fetchWordPairs (mockPlatform None notMocked (Inr None)) (js ''cat'')
          (defaultSettings\<lparr>customApiKey := js ''AIza''\<rparr>)) = Inr []
   \<and> snd (fetchContextQuestions (mockPlatform None notMocked (Inr None)) (js ''cat'') False 5
          (defaultSettings\<lparr>customApiKey := js ''AIza''\<rparr>)) = Inr (JArray [])
   \<and> snd (fetchGrammarData (mockPlatform None notMocked (Inr None)) (js ''tense'') (js ''7'') 5
          (defaultSettings\<lparr>customApiKey := js ''AIza''\<rparr>)) = Inr (JObject [])"
proof -
  let ?pf = "mockPlatform None notMocked (Inr None)"
  let ?st = "defaultSettings\<lparr>customApiKey := js ''AIza''\<rparr>"
  have k: "apiKey ?pf ?st = js ''AIza''"
    by (simp add: apiKey_def defaultSettings_def js_def)
  have h1: "apiKey ?pf ?st \<noteq> []" and h2: "\<not> prefix (js ''sk-'') (apiKey ?pf ?st)"
    unfolding k by (simp_all add: js_def)
  have h3: "generateContent ?pf request = Inr None" for request
    by (simp add: mockPlatform_def)
  have h4: "(None :: jsstring option) = None \<or> None = Some []"
    by simp
  show ?thesis
    by (rule empty_native_text_defaults [OF h1 h2 h3 h4])
qed

text \<open>
  C6, as amended. When the dispatcher returns a string that is not empty and what is left
  of it after the fences are stripped is not valid JSON, each of the three fetch functions
  fails with the parse error and returns no structure.
\<close>

theorem invalid_json_propagates:
  assumes "\<And>prompt sch. snd (callAi pf prompt settings sch) = Inr (Some (JString raw))"
    and "raw \<noteq> []"
    and "JSON_parse (cleanJsonResponse raw) = None"
  shows "snd (fetchWordPairs pf userWords settings) = Inl SyntaxError
       \<and> snd (fetchContextQuestions pf userWords allow count settings) = Inl SyntaxError
       \<and> snd (fetchGrammarData pf grammarPoint grade count settings) = Inl SyntaxError"
  by (simp add: snd_fetchWordPairs snd_fetchContextQuestions snd_fetchGrammarData assms(1)
      andThen_def parseResponse_invalid [OF assms(2) assms(3)])

theorem invalid_json_propagates_witness:
  "js ''[1,'' \<noteq> [] \<and> JSON_parse (cleanJsonResponse (js ''[1,'')) = None
   \<and> snd (fetchWordPairs (mockPlatform None notMocked (Inr (Some (js ''[1,'')))) (js ''cat'')
          (defaultSettings\<lparr>customApiKey := js ''AIza''\<rparr>)) = Inl SyntaxError
   \<and> snd (fetchContextQuestions (mockPlatform None notMocked (Inr (Some (js ''[1,''))))
          (js ''cat'') False 5 (defaultSettings\<lparr>customApiKey := js ''AIza''\<rparr>)) = Inl SyntaxError
   \<and> snd (fetchGrammarData (mockPlatform None notMocked (Inr (Some (js ''[1,''))))
          (js ''tense'') (js ''7'') 5 (defaultSettings\<lparr>customApiKey := js ''AIza''\<rparr>))
       = Inl SyntaxError"
proof -
  let ?pf = "mockPlatform None notMocked (Inr (Some (js ''[1,'')))"
  let ?st = "defaultSettings\<lparr>customApiKey := js ''AIza''\<rparr>"
  have k: "apiKey ?pf ?st = js ''AIza''"
    by (simp add: apiKey_def defaultSettings_def js_def)
  have n1: "apiKey ?pf ?st \<noteq> []" and n2: "\<not> prefix (js ''sk-'') (apiKey ?pf ?st)"
    unfolding k by (simp_all add: js_def)
  have g: "generateContent ?pf request = Inr (Some (js ''[1,''))" for request
    by (simp add: mockPlatform_def)
  have t: "trim (js ''[1,'') = js ''[1,''"
    by code_simp
  have h1: "snd (callAi ?pf prompt ?st sch) = Inr (Some (JString (js ''[1,'')))" for prompt sch
    using callAi_native [OF n1 n2 g] by (simp add: t)
  have h2: "js ''[1,'' \<noteq> []"
    by (simp add: js_def)
  have h3: "JSON_parse (cleanJsonResponse (js ''[1,'')) = None"
    by code_simp
  show ?thesis
    using invalid_json_propagates [OF h1 h2 h3] h2 h3 by blast
qed

text \<open>
  The claim as stated fails for the empty response: what is left of it is not valid JSON,
  yet it is replaced by \<open>[]\<close> before parsing and \<open>fetchWordPairs\<close> returns the empty list.
\<close>

theorem empty_response_is_not_an_error:
  "snd (callAi (mockPlatform None notMocked (Inr None)) (wordPairsPrompt (js ''cat''))
          (defaultSettings\<lparr>customApiKey := js ''AIza''\<rparr>) (Some WordPairsSchema))
     = Inr (Some (JString []))
   \<and> JSON_parse (cleanJsonResponse []) = None
   \<and> snd (fetchWordPairs (mockPlatform None notMocked (Inr None)) (js ''cat'')
          (defaultSettings\<lparr>customApiKey := js ''AIza''\<rparr>)) = Inr []"
proof -
  have "JSON_parse (cleanJsonResponse []) = None"
    by code_simp
  then show ?thesis
    by (simp add: snd_fetchWordPairs mock_native_text andThen_def parseResponse_empty_array)
qed

text \<open>
  C7, as amended. When the response parses to an array none of whose elements is null,
  \<open>fetchWordPairs\<close> returns a list of the same length and order whose \<open>i\<close>-th record has
  the \<open>en\<close> and \<open>cn\<close> of the \<open>i\<close>-th element, unchanged, and an id made of \<open>i\<close> and of
  the clock's reading only; so two invocations with the same readings give the same ids.
\<close>

theorem fetchWordPairs_maps:
  assumes "snd (callAi pf (wordPairsPrompt userWords) settings (Some WordPairsSchema)) = Inr t"
    and "parseResponse t (js ''[]'') = Inr (JArray ps)"
    and "JNull \<notin> set ps"
  shows "snd (fetchWordPairs pf userWords settings) =
     Inr (map (\<lambda>i. \<lparr>id_str = pairId i (Date_now pf i),
                     en = member (ps ! i) (js ''en''),
                     cn = member (ps ! i) (js ''cn'')\<rparr>) [0..<length ps])"
  using mapPairs_members [OF assms(3), of "Date_now pf" 0]
  by (simp add: snd_fetchWordPairs assms(1) assms(2) andThen_def)

theorem fetchWordPairs_maps_witness:
  "snd (fetchWordPairs (mockPlatform None notMocked (Inr (Some fencedCat))) (js ''cat'')
          (defaultSettings\<lparr>customApiKey := js ''AIza''\<rparr>))
     = Inr [\<lparr>id_str = js ''0-1700000000000'',
             en = Some (JString (js ''cat'')),
             cn = Some (JString [0x732B])\<rparr>]"
proof -
  let ?pf = "mockPlatform None notMocked (Inr (Some fencedCat))"
  let ?st = "defaultSettings\<lparr>customApiKey := js ''AIza''\<rparr>"
  let ?ps = "[JObject [(js ''en'', JString (js ''cat'')), (js ''cn'', JString [0x732B])]]"
  have t: "trim fencedCat = fencedCat"
    by code_simp
  have h1: "snd (callAi ?pf (wordPairsPrompt (js ''cat'')) ?st (Some WordPairsSchema))
      = Inr (Some (JString fencedCat))"
    by (simp add: mock_native_text t)
  have h2: "parseResponse (Some (JString fencedCat)) (js ''[]'') = Inr (JArray ?ps)"
    by code_simp
  have h3: "JNull \<notin> set ?ps"
    by simp
  have i: "pairId 0 (Date_now ?pf 0) = js ''0-1700000000000''"
    by (simp add: pairId_def toString_def decimal.simps mockPlatform_def js_def)
  have ne: "js ''cn'' \<noteq> js ''en''"
    by (simp add: js_def)
  show ?thesis
    using fetchWordPairs_maps [OF h1 h2 h3] by (simp add: i ne)
qed

text \<open>
  The claim as stated fails for an array with a null element: reading \<open>en\<close> of null is a
  TypeError, and no list is returned.
\<close>

theorem null_element_is_a_type_error:
  "JSON_parse (cleanJsonResponse (js ''[null]'')) = Some (JArray [JNull])
   \<and> snd (fetchWordPairs (mockPlatform None notMocked (Inr (Some (js ''[null]'')))) (js ''cat'')
          (defaultSettings\<lparr>customApiKey := js ''AIza''\<rparr>)) = Inl TypeError"
proof -
  have t: "trim (js ''[null]'') = js ''[null]''"
    by code_simp
  have p: "JSON_parse (cleanJsonResponse (js ''[null]'')) = Some (JArray [JNull])"
    by code_simp
  have q: "parseResponse (Some (JString (js ''[null]''))) (js ''[]'') = Inr (JArray [JNull])"
    by code_simp
  show ?thesis
    by (simp add: p snd_fetchWordPairs mock_native_text t q getProp_def andThen_def)
qed

end
